theory Spec2Isabelle
  imports Main "HOL-Library.Sublist" "HOL-Library.AList"
begin

section \<open>The Go library functions the plugin calls\<close>

text \<open>
  Strings are byte lists, as in Go. The functions of this section are the ones of Go's
  \<open>strings\<close>, \<open>bytes\<close>, \<open>path\<close> and \<open>fmt\<close> packages that \<open>qat_plugin.go\<close> calls, written after
  their documented behaviour.
\<close>

definition HasPrefix :: "string \<Rightarrow> string \<Rightarrow> bool" where
  "HasPrefix s p = (take (length p) s = p)"

definition TrimPrefix :: "string \<Rightarrow> string \<Rightarrow> string" where
  "TrimPrefix s p = (if HasPrefix s p then drop (length p) s else s)"

definition HasSuffix :: "string \<Rightarrow> string \<Rightarrow> bool" where
  "HasSuffix s p = (length p \<le> length s \<and> drop (length s - length p) s = p)"

definition TrimSuffix :: "string \<Rightarrow> string \<Rightarrow> string" where
  "TrimSuffix s p = (if HasSuffix s p then take (length s - length p) s else s)"

text \<open>
  \<open>strings.ToUpper\<close> on ASCII letters; the plugin applies it to the constant \<open>qat\<close> only.
\<close>

definition upperChar :: "char \<Rightarrow> char" where
  "upperChar c = (if (97::nat) \<le> of_char c \<and> of_char c \<le> (122::nat)
      then char_of (of_char c - (32::nat)) else c)"

definition ToUpper :: "string \<Rightarrow> string" where
  "ToUpper s = map upperChar s"

text \<open>
  The UTF-8 encodings of the code points Go's \<open>unicode.IsSpace\<close> accepts: the six ASCII
  ones, U+0085, U+00A0, U+1680, U+2000 to U+200A, U+2028, U+2029, U+202F, U+205F, U+3000.
\<close>

definition spaceRunes :: "string list" where
  "spaceRunes =
    [[CHR 0x09], [CHR 0x0A], [CHR 0x0B], [CHR 0x0C], [CHR 0x0D], [CHR 0x20],
     [CHR 0xC2, CHR 0x85], [CHR 0xC2, CHR 0xA0],
     [CHR 0xE1, CHR 0x9A, CHR 0x80],
     [CHR 0xE2, CHR 0x80, CHR 0x80], [CHR 0xE2, CHR 0x80, CHR 0x81],
     [CHR 0xE2, CHR 0x80, CHR 0x82], [CHR 0xE2, CHR 0x80, CHR 0x83],
     [CHR 0xE2, CHR 0x80, CHR 0x84], [CHR 0xE2, CHR 0x80, CHR 0x85],
     [CHR 0xE2, CHR 0x80, CHR 0x86], [CHR 0xE2, CHR 0x80, CHR 0x87],
     [CHR 0xE2, CHR 0x80, CHR 0x88], [CHR 0xE2, CHR 0x80, CHR 0x89],
     [CHR 0xE2, CHR 0x80, CHR 0x8A],
     [CHR 0xE2, CHR 0x80, CHR 0xA8], [CHR 0xE2, CHR 0x80, CHR 0xA9],
     [CHR 0xE2, CHR 0x80, CHR 0xAF],
     [CHR 0xE2, CHR 0x81, CHR 0x9F],
     [CHR 0xE3, CHR 0x80, CHR 0x80]]"

text \<open>
  \<open>trimRunes rs s\<close> removes from the front of \<open>s\<close> every leading occurrence of one of
  the byte strings \<open>rs\<close>; an empty string in \<open>rs\<close> removes nothing.
\<close>

function trimRunes :: "string list \<Rightarrow> string \<Rightarrow> string" where
  "trimRunes rs s =
     (case find (\<lambda>e. e \<noteq> [] \<and> prefix e s) rs of
        None \<Rightarrow> s
      | Some e \<Rightarrow> trimRunes rs (drop (length e) s))"
  by pat_completeness auto
termination
proof (relation "measure (\<lambda>(rs, s). length s)")
  show "wf (measure (\<lambda>(rs, s). length s))" by simp
next
  fix rs :: "string list" and s e :: string
  assume "find (\<lambda>e. e \<noteq> [] \<and> prefix e s) rs = Some e"
  then have "e \<noteq> [] \<and> prefix e s"
    by (auto simp: find_Some_iff)
  then have "s \<noteq> [] \<and> 0 < length e"
    by auto
  then show "((rs, drop (length e) s), (rs, s)) \<in> measure (\<lambda>(rs, s). length s)"
    by simp
qed

declare trimRunes.simps [simp del]

text \<open>
  \<open>bytes.TrimSpace\<close>: leading white space is removed rune by rune from the front, then
  trailing white space from the back.
\<close>

definition TrimSpace :: "string \<Rightarrow> string" where
  "TrimSpace s = rev (trimRunes (map rev spaceRunes) (rev (trimRunes spaceRunes s)))"

text \<open>\<open>%d\<close> of \<open>fmt.Sprintf\<close>: the decimal digits of an integer, with a minus sign.\<close>

function natDigits :: "nat \<Rightarrow> string" where
  "natDigits n = (if n < 10 then [char_of (48 + n)] else natDigits (n div 10) @ [char_of (48 + n mod 10)])"
  by pat_completeness auto
termination
  by (relation "measure id") auto

declare natDigits.simps [simp del]

definition itoa :: "int \<Rightarrow> string" where
  "itoa i = (if i < 0 then CHR ''-'' # natDigits (nat (- i)) else natDigits (nat i))"

text \<open>
  \<open>path.Clean\<close> works on the elements between slashes: empty elements and \<open>.\<close> are dropped,
  \<open>..\<close> removes the element before it (at the root it is dropped, at the start of a
  relative path it is kept). \<open>splitSlash\<close> cuts a path at every slash.
\<close>

fun splitSlash :: "string \<Rightarrow> string list" where
  "splitSlash [] = [[]]"
| "splitSlash (c # cs) =
     (if c = CHR ''/'' then [] # splitSlash cs
      else (case splitSlash cs of [] \<Rightarrow> [[c]] | e # es \<Rightarrow> (c # e) # es))"

fun joinSlash :: "string list \<Rightarrow> string" where
  "joinSlash [] = []"
| "joinSlash [e] = e"
| "joinSlash (e # es) = e @ CHR ''/'' # joinSlash es"

fun cleanElems :: "bool \<Rightarrow> string list \<Rightarrow> string list \<Rightarrow> string list" where
  "cleanElems rooted acc [] = rev acc"
| "cleanElems rooted acc (e # es) =
     (if e = [] \<or> e = ''.'' then cleanElems rooted acc es
      else if e = ''..'' then
        (case acc of
           [] \<Rightarrow> if rooted then cleanElems rooted [] es else cleanElems rooted [''..''] es
         | a # acc' \<Rightarrow>
             if a = ''..'' then cleanElems rooted (''..'' # acc) es
             else cleanElems rooted acc' es)
      else cleanElems rooted (e # acc) es)"

definition Clean :: "string \<Rightarrow> string" where
  "Clean p =
     (if p = [] then ''.''
      else
        let rooted = (hd p = CHR ''/'');
            body = joinSlash (cleanElems rooted [] (splitSlash p))
        in if rooted then CHR ''/'' # body
           else if body = [] then ''.'' else body)"

definition path_Join :: "string list \<Rightarrow> string" where
  "path_Join elem =
     (case dropWhile (\<lambda>e. e = []) elem of
        [] \<Rightarrow> []
      | es \<Rightarrow> Clean (joinSlash es))"

definition path_Base :: "string \<Rightarrow> string" where
  "path_Base p =
     (if p = [] then ''.''
      else
        let q = rev (dropWhile (\<lambda>c. c = CHR ''/'') (rev p));
            b = rev (takeWhile (\<lambda>c. c \<noteq> CHR ''/'') (rev q))
        in if b = [] then ''/'' else b)"

fun splitComma :: "string \<Rightarrow> string list" where
  "splitComma [] = [[]]"
| "splitComma (c # cs) =
     (if c = CHR '','' then [] # splitComma cs
      else (case splitComma cs of [] \<Rightarrow> [[c]] | e # es \<Rightarrow> (c # e) # es))"

section \<open>Data model\<close>

text \<open>
  Go errors are values. \<open>HostError\<close> is an error returned by the operating system (a
  failed read, write or symlink resolution); the other constructors are the ones of
  \<open>github.com/pkg/errors\<close> that the plugin applies: \<open>errors.New\<close>, \<open>errors.Wrapf\<close> (the
  cause and the formatted message) and \<open>errors.WithStack\<close>.
\<close>

datatype error =
    HostError string
  | New string
  | Wrap error string
  | WithStack error

text \<open>
  Modelled from the spec: the package \<open>internal/deviceplugin\<close> (\<open>DeviceInfo\<close>,
  \<open>DeviceTree\<close>, \<open>NewDeviceTree\<close>, \<open>AddDevice\<close>) is not among the sources. The spec's data
  model gives a device descriptor as health status, ordered node paths, ordered mount
  paths and a mapping from environment-variable name to value, and the device tree as a
  mapping from resource-class name to a mapping from device address to descriptor. The
  Go maps are association lists with distinct keys here: \<open>AddDevice\<close> overwrites the entry
  of a key already present. The zero value \<open>DeviceInfo{}\<close> has every field empty.
\<close>

record DeviceInfo =
  State :: string
  Nodes :: "string list"
  Mounts :: "string list"
  Envs :: "(string \<times> string) list"

type_synonym DeviceTree = "(string \<times> (string \<times> DeviceInfo) list) list"

definition emptyDeviceInfo :: DeviceInfo where
  "emptyDeviceInfo = \<lparr>State = [], Nodes = [], Mounts = [], Envs = []\<rparr>"

definition Healthy :: string where
  "Healthy = ''Healthy''"

definition NewDeviceTree :: DeviceTree where
  "NewDeviceTree = []"

definition AddDevice :: "DeviceTree \<Rightarrow> string \<Rightarrow> string \<Rightarrow> DeviceInfo \<Rightarrow> DeviceTree" where
  "AddDevice tree devType ident info =
     AList.update devType
       (AList.update ident info (case map_of tree devType of None \<Rightarrow> [] | Some m \<Rightarrow> m))
       tree"

text \<open>The struct \<open>devicePlugin\<close>; Go's \<open>int\<close> is an integer here, see the note at \<open>scan\<close>.\<close>

record devicePlugin =
  maxDevices :: int
  pciDriverDir :: string
  pciDeviceDir :: string
  kernelVfDrivers :: "string list"
  dpdkDriver :: string

definition newDevicePlugin ::
  "string \<Rightarrow> string \<Rightarrow> int \<Rightarrow> string list \<Rightarrow> string \<Rightarrow> devicePlugin" where
  "newDevicePlugin pciDriverDir' pciDeviceDir' maxDevices' kernelVfDrivers' dpdkDriver' =
     \<lparr>maxDevices = maxDevices', pciDriverDir = pciDriverDir', pciDeviceDir = pciDeviceDir',
      kernelVfDrivers = kernelVfDrivers', dpdkDriver = dpdkDriver'\<rparr>"

definition uioDevicePath :: string where "uioDevicePath = ''/dev''"
definition vfioDevicePath :: string where "vfioDevicePath = ''/dev/vfio''"
definition uioMountPath :: string where "uioMountPath = ''/sys/class/uio''"
definition pciDeviceDirectory :: string where "pciDeviceDirectory = ''/sys/bus/pci/devices''"
definition pciDriverDirectory :: string where "pciDriverDirectory = ''/sys/bus/pci/drivers''"
definition uioSuffix :: string where "uioSuffix = ''uio''"
definition iommuGroupSuffix :: string where "iommuGroupSuffix = ''iommu_group''"
definition newIDSuffix :: string where "newIDSuffix = ''new_id''"
definition driverUnbindSuffix :: string where "driverUnbindSuffix = ''driver/unbind''"
definition vendorPrefix :: string where "vendorPrefix = ''8086 ''"
definition namespace :: string where "namespace = ''qat.intel.com''"

section \<open>The host and the calls the plugin makes\<close>

text \<open>
  The plugin observes and changes the host only through \<open>ioutil.ReadDir\<close>,
  \<open>ioutil.ReadFile\<close>, \<open>ioutil.WriteFile\<close>, \<open>filepath.EvalSymlinks\<close> and \<open>time.Sleep\<close>. A host is
  any five functions on a state of the host's own: each call returns its result and the
  next state, so a host may answer the same call differently every time. A directory
  listing is the list of the entries' names, the only part of \<open>os.FileInfo\<close> the plugin
  reads. \<open>Sleep\<close> takes the duration, a \<open>time.Duration\<close> in nanoseconds, and gives the state
  of the host when the sleep is over.
\<close>

record 's host =
  ReadDir :: "string \<Rightarrow> 's \<Rightarrow> (error + string list) \<times> 's"
  ReadFile :: "string \<Rightarrow> 's \<Rightarrow> (error + string) \<times> 's"
  WriteFile :: "string \<Rightarrow> string \<Rightarrow> 's \<Rightarrow> error option \<times> 's"
  EvalSymlinks :: "string \<Rightarrow> 's \<Rightarrow> (error + string) \<times> 's"
  Sleep :: "int \<Rightarrow> 's \<Rightarrow> 's"

text \<open>
  Every call that leaves \<open>qat_plugin.go\<close> is logged, in order: the host calls with their
  arguments, \<open>fmt.Printf\<close> with its format and arguments, \<open>AddDevice\<close> and \<open>Notify\<close>.
\<close>

datatype parg = PStr string | PErr error

datatype event =
    EvReadDir string
  | EvReadFile string
  | EvWriteFile string string
  | EvEvalSymlinks string
  | EvPrintf string "parg list"
  | EvAddDevice string string DeviceInfo
  | EvPrintln "parg list"
  | EvNotify DeviceTree
  | EvSleep int

record 's world =
  hst :: 's
  trace :: "event list"

definition emit :: "event \<Rightarrow> 's world \<Rightarrow> 's world" where
  "emit e w = w\<lparr>trace := trace w @ [e]\<rparr>"

definition ioutil_ReadDir ::
  "'s host \<Rightarrow> string \<Rightarrow> 's world \<Rightarrow> (error + string list) \<times> 's world" where
  "ioutil_ReadDir h p w =
     (case ReadDir h p (hst w) of (r, s) \<Rightarrow> (r, emit (EvReadDir p) (w\<lparr>hst := s\<rparr>)))"

definition ioutil_ReadFile ::
  "'s host \<Rightarrow> string \<Rightarrow> 's world \<Rightarrow> (error + string) \<times> 's world" where
  "ioutil_ReadFile h p w =
     (case ReadFile h p (hst w) of (r, s) \<Rightarrow> (r, emit (EvReadFile p) (w\<lparr>hst := s\<rparr>)))"

definition ioutil_WriteFile ::
  "'s host \<Rightarrow> string \<Rightarrow> string \<Rightarrow> 's world \<Rightarrow> error option \<times> 's world" where
  "ioutil_WriteFile h p d w =
     (case WriteFile h p d (hst w) of (r, s) \<Rightarrow> (r, emit (EvWriteFile p d) (w\<lparr>hst := s\<rparr>)))"

definition filepath_EvalSymlinks ::
  "'s host \<Rightarrow> string \<Rightarrow> 's world \<Rightarrow> (error + string) \<times> 's world" where
  "filepath_EvalSymlinks h p w =
     (case EvalSymlinks h p (hst w) of (r, s) \<Rightarrow> (r, emit (EvEvalSymlinks p) (w\<lparr>hst := s\<rparr>)))"

definition time_Second :: int where
  "time_Second = 1000000000"

definition time_Sleep :: "'s host \<Rightarrow> int \<Rightarrow> 's world \<Rightarrow> 's world" where
  "time_Sleep h d w = emit (EvSleep d) (w\<lparr>hst := Sleep h d (hst w)\<rparr>)"

definition Printf :: "string \<Rightarrow> parg list \<Rightarrow> 's world \<Rightarrow> 's world" where
  "Printf format args w = emit (EvPrintf format args) w"

definition Println :: "parg list \<Rightarrow> 's world \<Rightarrow> 's world" where
  "Println args w = emit (EvPrintln args) w"

text \<open>
  \<open>devTree.AddDevice\<close> changes the tree in place; here the call returns the changed tree.
  \<open>notifier.Notify\<close> belongs to the device-plugin manager: only the call is recorded.
\<close>

definition devTree_AddDevice ::
  "DeviceTree \<Rightarrow> string \<Rightarrow> string \<Rightarrow> DeviceInfo \<Rightarrow> 's world \<Rightarrow> DeviceTree \<times> 's world" where
  "devTree_AddDevice tree devType ident info w =
     (AddDevice tree devType ident info, emit (EvAddDevice devType ident info) w)"

definition notifier_Notify :: "DeviceTree \<Rightarrow> 's world \<Rightarrow> 's world" where
  "notifier_Notify tree w = emit (EvNotify tree) w"

section \<open>The plugin\<close>

definition getDpdkDevice ::
  "'s host \<Rightarrow> devicePlugin \<Rightarrow> string \<Rightarrow> 's world \<Rightarrow> (error + string) \<times> 's world" where
  "getDpdkDevice h dp ident w =
     (let devicePCIAdd = ''0000:'' @ ident in
      if dpdkDriver dp = ''igb_uio'' then
        (let uioDirPath = path_Join [pciDeviceDir dp, devicePCIAdd, uioSuffix] in
         case ioutil_ReadDir h uioDirPath w of
           (Inl err, w') \<Rightarrow> (Inl err, w')
         | (Inr files, w') \<Rightarrow>
             (case files of
                [] \<Rightarrow> (Inl (New ''No devices found''), w')
              | f # _ \<Rightarrow> (Inr f, w')))
      else if dpdkDriver dp = ''vfio-pci'' then
        (let vfioDirPath = path_Join [pciDeviceDir dp, devicePCIAdd, iommuGroupSuffix] in
         case filepath_EvalSymlinks h vfioDirPath w of
           (Inl err, w') \<Rightarrow> (Inl (WithStack err), w')
         | (Inr group', w') \<Rightarrow>
             (let s = path_Base group' in
              (Inr s, Printf ''The vfio device group detected is %v\<newline>'' [PStr s] w')))
      else (Inl (New ''Unknown DPDK driver''), w))"

definition getDpdkDeviceNames ::
  "'s host \<Rightarrow> devicePlugin \<Rightarrow> string \<Rightarrow> 's world \<Rightarrow> (error + string list) \<times> 's world" where
  "getDpdkDeviceNames h dp ident w =
     (case getDpdkDevice h dp ident w of
        (Inl err, w') \<Rightarrow> (Inl err, w')
      | (Inr dpdkDeviceName, w') \<Rightarrow>
          (let w'' = Printf ''%s device: corresponding DPDK device detected is %s\<newline>''
                       [PStr ident, PStr dpdkDeviceName] w' in
           if dpdkDriver dp = ''igb_uio'' then
             (Inr [path_Join [uioDevicePath, dpdkDeviceName]], w'')
           else if dpdkDriver dp = ''vfio-pci'' then
             (Inr [path_Join [vfioDevicePath, dpdkDeviceName],
                   path_Join [vfioDevicePath, ''/vfio'']], w'')
           else (Inl (New ''Unknown DPDK driver''), w'')))"

definition getDpdkMountPaths ::
  "'s host \<Rightarrow> devicePlugin \<Rightarrow> string \<Rightarrow> 's world \<Rightarrow> (error + string list) \<times> 's world" where
  "getDpdkMountPaths h dp ident w =
     (case getDpdkDevice h dp ident w of
        (Inl err, w') \<Rightarrow> (Inl err, w')
      | (Inr dpdkDeviceName, w') \<Rightarrow>
          (if dpdkDriver dp = ''igb_uio'' then
             (Inr [path_Join [uioMountPath, dpdkDeviceName, ''/device'']], w')
           else if dpdkDriver dp = ''vfio-pci'' then (Inr [], w')
           else (Inl (New ''Unknown DPDK driver''), w')))"

definition getDeviceID ::
  "'s host \<Rightarrow> devicePlugin \<Rightarrow> string \<Rightarrow> 's world \<Rightarrow> (error + string) \<times> 's world" where
  "getDeviceID h dp pciAddr w =
     (case ioutil_ReadFile h (path_Join [pciDeviceDir dp, pciAddr, ''device'']) w of
        (Inl err, w') \<Rightarrow> (Inl (Wrap err (''Cannot obtain ID for the device '' @ pciAddr)), w')
      | (Inr devID, w') \<Rightarrow> (Inr (TrimPrefix (TrimSpace devID) ''0x''), w'))"

text \<open>\<open>bindDevice\<close> unbinds the device from its kernel driver and binds it to the DPDK driver.\<close>

definition bindDevice ::
  "'s host \<Rightarrow> devicePlugin \<Rightarrow> string \<Rightarrow> 's world \<Rightarrow> error option \<times> 's world" where
  "bindDevice h dp ident w =
     (let devicePCIAddr = ''0000:'' @ ident;
          unbindDevicePath = path_Join [pciDeviceDir dp, devicePCIAddr, driverUnbindSuffix] in
      case ioutil_WriteFile h unbindDevicePath devicePCIAddr w of
        (Some err, w1) \<Rightarrow>
          (Some (Wrap err (''Unbinding from kernel driver failed for the device '' @ ident)), w1)
      | (None, w1) \<Rightarrow>
          (case getDeviceID h dp devicePCIAddr w1 of
             (Inl err, w2) \<Rightarrow> (Some err, w2)
           | (Inr vfdevID, w2) \<Rightarrow>
               (let bindDevicePath = path_Join [pciDriverDir dp, dpdkDriver dp, newIDSuffix] in
                case ioutil_WriteFile h bindDevicePath (vendorPrefix @ vfdevID) w2 of
                  (Some err, w3) \<Rightarrow>
                    (Some (Wrap err (''Binding to the DPDK driver failed for the device '' @ ident)), w3)
                | (None, w3) \<Rightarrow> (None, w3))))"

definition isValidKerneDriver :: "string \<Rightarrow> bool" where
  "isValidKerneDriver kernelvfDriver =
     (kernelvfDriver = ''dh895xccvf'' \<or> kernelvfDriver = ''c6xxvf''
      \<or> kernelvfDriver = ''c3xxxvf'' \<or> kernelvfDriver = ''d15xxvf'')"

definition isValidDpdkDeviceDriver :: "string \<Rightarrow> bool" where
  "isValidDpdkDeviceDriver dpdkDriver' = (dpdkDriver' = ''igb_uio'' \<or> dpdkDriver' = ''vfio-pci'')"

definition isValidVfDeviceID :: "string \<Rightarrow> bool" where
  "isValidVfDeviceID vfDevID =
     (vfDevID = ''0442'' \<or> vfDevID = ''0443'' \<or> vfDevID = ''37c9'' \<or> vfDevID = ''19e3'')"

text \<open>
  \<open>getDeviceInfo\<close> returns a descriptor and an error, as the Go function does: the
  descriptor is the zero value on every path but the last.
\<close>

definition getDeviceInfo ::
  "'s host \<Rightarrow> devicePlugin \<Rightarrow> string \<Rightarrow> int \<Rightarrow> 's world
     \<Rightarrow> (DeviceInfo \<times> error option) \<times> 's world" where
  "getDeviceInfo h dp vfpciaddr counter w =
     (let devinfo = emptyDeviceInfo;
          fileName = ''0000:'' @ vfpciaddr in
      case getDeviceID h dp fileName w of
        (Inl err, w1) \<Rightarrow>
          ((devinfo,
            Some (Wrap err (''Cannot obtain deviceID for the device with PCI address: '' @ fileName))),
           w1)
      | (Inr vfdevID, w1) \<Rightarrow>
          if \<not> isValidVfDeviceID vfdevID then ((devinfo, None), w1)
          else
            (case bindDevice h dp vfpciaddr w1 of
               (Some err, w2) \<Rightarrow> ((devinfo, Some err), w2)
             | (None, w2) \<Rightarrow>
                 (case getDpdkDeviceNames h dp vfpciaddr w2 of
                    (Inl err, w3) \<Rightarrow> ((devinfo, Some err), w3)
                  | (Inr devNodes, w3) \<Rightarrow>
                      (case getDpdkMountPaths h dp vfpciaddr w3 of
                         (Inl err, w4) \<Rightarrow> ((devinfo, Some err), w4)
                       | (Inr devMounts, w4) \<Rightarrow>
                           (let deviceName = TrimSuffix namespace ''.intel.com'' in
                            ((\<lparr>State = Healthy, Nodes = devNodes, Mounts = devMounts,
                               Envs = [(ToUpper deviceName @ itoa counter, fileName)]\<rparr>,
                              None), w4))))))"

text \<open>
  \<open>scan\<close> is two loops. The first (\<open>scan_inventory\<close>) goes over the kernel VF drivers
  followed by the DPDK driver (\<open>scan_drivers\<close>) and, for each, over the entries of its
  directory (\<open>scan_files\<close>); its \<open>break\<close> leaves the inner loop only. The second
  (\<open>scan_rebind\<close>) goes over the entries collected in \<open>filesNew\<close>. The loop variables are arguments:
  \<open>dpdkDriverBound\<close>, \<open>filesNew\<close>, the tree and, in the second loop, \<open>n\<close>.
  The counters are Go \<open>int\<close>s; they count directory entries, which stay far below
  \<open>2^63\<close>, so they are integers without wrap-around here.
\<close>

fun scan_files ::
  "'s host \<Rightarrow> devicePlugin \<Rightarrow> string \<Rightarrow> string list \<Rightarrow> int \<Rightarrow> string list \<Rightarrow> DeviceTree
     \<Rightarrow> 's world \<Rightarrow> (int \<times> string list \<times> DeviceTree) \<times> 's world" where
  "scan_files h dp driver [] dpdkDriverBound filesNew devTree w =
     ((dpdkDriverBound, filesNew, devTree), w)"
| "scan_files h dp driver (file # files) dpdkDriverBound filesNew devTree w =
     (if HasPrefix file ''0000:'' then
        (if driver = dpdkDriver dp then
           (if dpdkDriverBound + 1 > maxDevices dp then
              ((dpdkDriverBound + 1, filesNew @ [file], devTree), w)
            else
              (case getDeviceInfo h dp (TrimPrefix file ''0000:'') (dpdkDriverBound + 1) w of
                 ((dpdkDevInfo, Some err), w') \<Rightarrow>
                   scan_files h dp driver files (dpdkDriverBound + 1) (filesNew @ [file]) devTree
                     (Printf ''Cannot get device info:'' [PErr err] w')
               | ((dpdkDevInfo, None), w') \<Rightarrow>
                   (case devTree_AddDevice devTree ''generic'' (TrimPrefix file ''0000:'')
                           dpdkDevInfo w' of
                      (devTree', w'') \<Rightarrow>
                        scan_files h dp driver files (dpdkDriverBound + 1) (filesNew @ [file])
                          devTree' w'')))
         else scan_files h dp driver files dpdkDriverBound (filesNew @ [file]) devTree w)
      else scan_files h dp driver files dpdkDriverBound filesNew devTree w)"

fun scan_drivers ::
  "'s host \<Rightarrow> devicePlugin \<Rightarrow> string list \<Rightarrow> int \<Rightarrow> string list \<Rightarrow> DeviceTree
     \<Rightarrow> 's world \<Rightarrow> (int \<times> string list \<times> DeviceTree) \<times> 's world" where
  "scan_drivers h dp [] dpdkDriverBound filesNew devTree w =
     ((dpdkDriverBound, filesNew, devTree), w)"
| "scan_drivers h dp (driver # drivers) dpdkDriverBound filesNew devTree w =
     (case ioutil_ReadDir h (path_Join [pciDriverDir dp, driver]) w of
        (Inl err, w') \<Rightarrow>
          scan_drivers h dp drivers dpdkDriverBound filesNew devTree
            (Printf ''Can't read sysfs for driver as Driver %s is not available: Skipping\<newline>''
               [PStr driver] w')
      | (Inr files, w') \<Rightarrow>
          (case scan_files h dp driver files dpdkDriverBound filesNew devTree w' of
             ((dpdkDriverBound', filesNew', devTree'), w'') \<Rightarrow>
               scan_drivers h dp drivers dpdkDriverBound' filesNew' devTree' w''))"

fun scan_rebind ::
  "'s host \<Rightarrow> devicePlugin \<Rightarrow> int \<Rightarrow> int \<Rightarrow> string list \<Rightarrow> int \<Rightarrow> DeviceTree
     \<Rightarrow> 's world \<Rightarrow> DeviceTree \<times> 's world" where
  "scan_rebind h dp devicesNeeded dpdkDriverBound [] n devTree w = (devTree, w)"
| "scan_rebind h dp devicesNeeded dpdkDriverBound (file # files) n devTree w =
     (if n + 1 > devicesNeeded then (devTree, w)
      else
        (case getDeviceInfo h dp (TrimPrefix file ''0000:'') dpdkDriverBound w of
           ((kernelDevInfo, Some err), w') \<Rightarrow>
             scan_rebind h dp devicesNeeded dpdkDriverBound files (n + 1) devTree
               (Printf ''Cannot get device info:'' [PErr err] w')
         | ((kernelDevInfo, None), w') \<Rightarrow>
             (case devTree_AddDevice devTree ''generic'' (TrimPrefix file ''0000:'')
                     kernelDevInfo w' of
                (devTree', w'') \<Rightarrow>
                  scan_rebind h dp devicesNeeded dpdkDriverBound files (n + 1) devTree' w'')))"

definition scan_inventory ::
  "'s host \<Rightarrow> devicePlugin \<Rightarrow> DeviceTree \<Rightarrow> 's world
     \<Rightarrow> (int \<times> string list \<times> DeviceTree) \<times> 's world" where
  "scan_inventory h dp devTree w =
     scan_drivers h dp (kernelVfDrivers dp @ [dpdkDriver dp]) 0 [] devTree w"

definition scan ::
  "'s host \<Rightarrow> devicePlugin \<Rightarrow> DeviceTree \<Rightarrow> 's world
     \<Rightarrow> (DeviceTree \<times> error option) \<times> 's world" where
  "scan h dp devTree w =
     (case scan_inventory h dp devTree w of
        ((dpdkDriverBound, filesNew, devTree1), w1) \<Rightarrow>
          (let devicesNeeded = maxDevices dp - dpdkDriverBound in
           if dpdkDriverBound < maxDevices dp then
             (case scan_rebind h dp devicesNeeded dpdkDriverBound filesNew 0 devTree1 w1 of
                (devTree2, w2) \<Rightarrow> ((devTree2, None), w2))
           else ((devTree1, None), w1)))"

text \<open>
  The loop of \<open>Scan\<close>. The tree is made once, before the loop, and is a Go map: what
  \<open>scan\<close> adds to it is still in \<open>devTreeIn\<close> at the next iteration, so the loop carries
  the tree that \<open>scan\<close> returned. \<open>Scan_step\<close> is the body of the loop: \<open>Inl\<close> when it
  returns the error of \<open>scan\<close>, \<open>Inr\<close> the tree and the world at the end of the iteration,
  after the notification and the sleep of five seconds. The loop returns only when its
  body does; a run that never returns has the value \<open>None\<close>.
\<close>

definition Scan_step ::
  "'s host \<Rightarrow> devicePlugin \<Rightarrow> DeviceTree \<Rightarrow> 's world
     \<Rightarrow> (error \<times> 's world) + (DeviceTree \<times> 's world)" where
  "Scan_step h dp devTreeIn w =
     (case scan h dp devTreeIn w of
        ((devTree, Some err), w') \<Rightarrow> Inl (err, w')
      | ((devTree, None), w') \<Rightarrow>
          Inr (devTree, time_Sleep h (5 * time_Second) (notifier_Notify devTree w')))"

partial_function (option) Scan_loop ::
  "'s host \<Rightarrow> devicePlugin \<Rightarrow> DeviceTree \<Rightarrow> 's world \<Rightarrow> (error \<times> 's world) option" where
  "Scan_loop h dp devTreeIn w =
     (case Scan_step h dp devTreeIn w of
        Inl (err, w') \<Rightarrow> Some (err, w')
      | Inr (devTree, w') \<Rightarrow> Scan_loop h dp devTree w')"

definition Scan :: "'s host \<Rightarrow> devicePlugin \<Rightarrow> 's world \<Rightarrow> (error \<times> 's world) option" where
  "Scan h dp w = Scan_loop h dp NewDeviceTree w"

text \<open>
  The first \<open>k\<close> iterations of the same loop, to look at the state it has reached: \<open>Inl\<close>
  when the body has returned an error within \<open>k\<close> iterations, \<open>Inr\<close> the tree the loop
  carries when it is still running after them.
\<close>

fun Scan_iterations ::
  "nat \<Rightarrow> 's host \<Rightarrow> devicePlugin \<Rightarrow> DeviceTree \<Rightarrow> 's world \<Rightarrow> (error + DeviceTree) \<times> 's world" where
  "Scan_iterations 0 h dp devTreeIn w = (Inr devTreeIn, w)"
| "Scan_iterations (Suc k) h dp devTreeIn w =
     (case Scan_step h dp devTreeIn w of
        Inl (err, w') \<Rightarrow> (Inl err, w')
      | Inr (devTree, w') \<Rightarrow> Scan_iterations k h dp devTree w')"

text \<open>
  \<open>main\<close> up to the call of the manager: the flags are arguments, \<open>os.Exit(1)\<close> is \<open>Inl 1\<close>,
  and \<open>Inr\<close> is the plugin handed to \<open>deviceplugin.NewManager\<close>.
\<close>

definition main ::
  "string \<Rightarrow> string \<Rightarrow> int \<Rightarrow> 's world \<Rightarrow> (int + devicePlugin) \<times> 's world" where
  "main dpdkDriver' kernelVfDrivers' maxNumDevices w =
     (let w0 = Println [PStr ''QAT device plugin started''] w in
      if \<not> isValidDpdkDeviceDriver dpdkDriver' then
        (Inl 1, Println [PStr ''Wrong DPDK device driver:'', PStr dpdkDriver'] w0)
      else
        (let kernelDrivers = splitComma kernelVfDrivers' in
         case find (\<lambda>driver. \<not> isValidKerneDriver driver) kernelDrivers of
           Some driver \<Rightarrow> (Inl 1, Println [PStr ''Wrong kernel VF driver:'', PStr driver] w0)
         | None \<Rightarrow>
             (Inr (newDevicePlugin pciDriverDirectory pciDeviceDirectory maxNumDevices
                     kernelDrivers dpdkDriver'), w0)))"

section \<open>A simulated host\<close>

text \<open>
  Modelled from the spec: the host's sysfs is not part of the repository; this host
  follows the filesystem contract of the spec's section 6. A driver directory lists the
  addresses bound to the driver, then its control files; \<open><addr>/device\<close> holds the
  device ID; a write to \<open><addr>/driver/unbind\<close> unbinds a bound device and fails for a
  device with no driver; a write of a vendor and device ID to \<open><driver>/new_id\<close> binds
  to the driver every device with that ID that has no driver. Writes to the paths in
  \<open>sim_nowrite\<close> fail and change nothing. During each sleep, whatever its duration, the
  devices of the next entry of \<open>sim_unplug\<close> are removed from the host.
\<close>

record simfs =
  sim_drivers :: "(string \<times> string list) list"
  sim_devices :: "(string \<times> string) list"
  sim_groups :: "(string \<times> string) list"
  sim_uio :: "(string \<times> string list) list"
  sim_nowrite :: "string list"
  sim_unplug :: "string list list"

definition sim_ReadDir :: "string \<Rightarrow> simfs \<Rightarrow> (error + string list) \<times> simfs" where
  "sim_ReadDir p s =
     (case find (\<lambda>(d, addrs). path_Join [pciDriverDirectory, d] = p) (sim_drivers s) of
        Some (d, addrs) \<Rightarrow> (Inr (addrs @ [''bind'', ''new_id'', ''unbind'']), s)
      | None \<Rightarrow>
          (case find (\<lambda>(a, es). path_Join [pciDeviceDirectory, a, ''uio''] = p) (sim_uio s) of
             Some (a, es) \<Rightarrow> (Inr es, s)
           | None \<Rightarrow> (Inl (HostError ''no such file or directory''), s)))"

definition sim_ReadFile :: "string \<Rightarrow> simfs \<Rightarrow> (error + string) \<times> simfs" where
  "sim_ReadFile p s =
     (case find (\<lambda>(a, c). path_Join [pciDeviceDirectory, a, ''device''] = p) (sim_devices s) of
        Some (a, c) \<Rightarrow> (Inr c, s)
      | None \<Rightarrow> (Inl (HostError ''no such file or directory''), s))"

definition sim_unbound :: "simfs \<Rightarrow> string \<Rightarrow> bool" where
  "sim_unbound s a = (a \<notin> set (concat (map snd (sim_drivers s))))"

definition sim_WriteFile :: "string \<Rightarrow> string \<Rightarrow> simfs \<Rightarrow> error option \<times> simfs" where
  "sim_WriteFile p c s =
     (if p \<in> set (sim_nowrite s) then (Some (HostError ''permission denied''), s)
      else
        (case find (\<lambda>a. path_Join [pciDeviceDirectory, a, ''driver/unbind''] = p)
                (concat (map snd (sim_drivers s))) of
           Some a \<Rightarrow>
             (None, s\<lparr>sim_drivers := map (\<lambda>(d, addrs). (d, removeAll a addrs)) (sim_drivers s)\<rparr>)
         | None \<Rightarrow>
             (case find (\<lambda>(d, addrs). path_Join [pciDriverDirectory, d, ''new_id''] = p)
                     (sim_drivers s) of
                Some (d, addrs) \<Rightarrow>
                  (None,
                   s\<lparr>sim_drivers :=
                       AList.update d
                         (addrs @ map fst (filter (\<lambda>(a, i). sim_unbound s a
                             \<and> vendorPrefix @ TrimPrefix (TrimSpace i) ''0x'' = c) (sim_devices s)))
                         (sim_drivers s)\<rparr>)
              | None \<Rightarrow> (Some (HostError ''no such file or directory''), s))))"

definition sim_EvalSymlinks :: "string \<Rightarrow> simfs \<Rightarrow> (error + string) \<times> simfs" where
  "sim_EvalSymlinks p s =
     (case find (\<lambda>(a, g). path_Join [pciDeviceDirectory, a, ''iommu_group''] = p) (sim_groups s) of
        Some (a, g) \<Rightarrow> (Inr g, s)
      | None \<Rightarrow> (Inl (HostError ''no such file or directory''), s))"

definition sim_Sleep :: "int \<Rightarrow> simfs \<Rightarrow> simfs" where
  "sim_Sleep d s =
     (case sim_unplug s of
        [] \<Rightarrow> s
      | gone # later \<Rightarrow>
          s\<lparr>sim_drivers := map (\<lambda>(d, addrs). (d, filter (\<lambda>a. a \<notin> set gone) addrs)) (sim_drivers s),
            sim_devices := filter (\<lambda>(a, i). a \<notin> set gone) (sim_devices s),
            sim_unplug := later\<rparr>)"

definition sim_host :: "simfs host" where
  "sim_host = \<lparr>ReadDir = sim_ReadDir, ReadFile = sim_ReadFile, WriteFile = sim_WriteFile,
     EvalSymlinks = sim_EvalSymlinks, Sleep = sim_Sleep\<rparr>"

definition start :: "'s \<Rightarrow> 's world" where
  "start s = \<lparr>hst = s, trace = []\<rparr>"

section \<open>Reading the log\<close>

text \<open>
  \<open>added\<close> are the descriptors handed to \<open>AddDevice\<close>, \<open>written\<close> the writes, \<open>listed\<close> the
  directories read, \<open>notified\<close> the trees given to the notifier and \<open>slept\<close> the durations
  of the sleeps, each in the order of the calls.
\<close>

fun added :: "event list \<Rightarrow> (string \<times> DeviceInfo) list" where
  "added [] = []"
| "added (EvAddDevice devType ident info # es) = (ident, info) # added es"
| "added (e # es) = added es"

fun written :: "event list \<Rightarrow> (string \<times> string) list" where
  "written [] = []"
| "written (EvWriteFile p c # es) = (p, c) # written es"
| "written (e # es) = written es"

fun listed :: "event list \<Rightarrow> string list" where
  "listed [] = []"
| "listed (EvReadDir p # es) = p # listed es"
| "listed (e # es) = listed es"

fun notified :: "event list \<Rightarrow> DeviceTree list" where
  "notified [] = []"
| "notified (EvNotify tree # es) = tree # notified es"
| "notified (e # es) = notified es"

fun slept :: "event list \<Rightarrow> int list" where
  "slept [] = []"
| "slept (EvSleep d # es) = d # slept es"
| "slept (e # es) = slept es"

text \<open>
  \<open>replay tree calls\<close> is the tree after the given \<open>AddDevice\<close> calls (all of them for the
  resource class \<open>generic\<close>, the only one the plugin uses), and \<open>descriptor tree ident\<close> the
  descriptor a tree holds for an address.
\<close>

definition replay :: "DeviceTree \<Rightarrow> (string \<times> DeviceInfo) list \<Rightarrow> DeviceTree" where
  "replay tree calls = foldl (\<lambda>tr (ident, info). AddDevice tr ''generic'' ident info) tree calls"

definition descriptor :: "DeviceTree \<Rightarrow> string \<Rightarrow> DeviceInfo option" where
  "descriptor tree ident = (case map_of tree ''generic'' of None \<Rightarrow> None | Some m \<Rightarrow> map_of m ident)"

text \<open>A piece of log is \<open>quiet\<close> when it holds no \<open>AddDevice\<close>, no notification and no sleep.\<close>

definition quiet :: "event list \<Rightarrow> bool" where
  "quiet evs = (added evs = [] \<and> notified evs = [] \<and> slept evs = [])"

section \<open>Configurations and hosts of the scenarios\<close>

text \<open>
  The plugin as \<open>main\<close> builds it by default, with the device cap as parameter, and hosts
  with two VFs \<open>0000:01:00.0\<close> and \<open>0000:01:00.1\<close>: \<open>host_of drivers ids\<close> has the given
  driver directories and device IDs.
\<close>

definition plugin :: "int \<Rightarrow> devicePlugin" where
  "plugin cap = newDevicePlugin pciDriverDirectory pciDeviceDirectory cap
     [''dh895xccvf'', ''c6xxvf'', ''c3xxxvf'', ''d15xxvf''] ''vfio-pci''"

definition host_of :: "(string \<times> string list) list \<Rightarrow> (string \<times> string) list \<Rightarrow> simfs" where
  "host_of drivers ids =
     \<lparr>sim_drivers = drivers, sim_devices = ids,
      sim_groups = [(''0000:01:00.0'', ''/sys/kernel/iommu_groups/7''),
                    (''0000:01:00.1'', ''/sys/kernel/iommu_groups/8'')],
      sim_uio = [], sim_nowrite = [], sim_unplug = []\<rparr>"

text \<open>One VF with an ID outside the allow-list, bound to the DPDK driver.\<close>

definition unknown_host :: simfs where
  "unknown_host = host_of [(''vfio-pci'', [''0000:01:00.0''])] [(''0000:01:00.0'', ''0x1234\<newline>'')]"

text \<open>One VF with a known ID, bound to the DPDK driver; no kernel driver is loaded.\<close>

definition bound_host :: simfs where
  "bound_host = host_of [(''vfio-pci'', [''0000:01:00.0''])] [(''0000:01:00.0'', ''0x37c9\<newline>'')]"

text \<open>Two VFs with a known ID, both bound to the DPDK driver.\<close>

definition two_bound_host :: simfs where
  "two_bound_host =
     host_of [(''vfio-pci'', [''0000:01:00.0'', ''0000:01:00.1''])]
       [(''0000:01:00.0'', ''0x37c9\<newline>''), (''0000:01:00.1'', ''0x37c9\<newline>'')]"

text \<open>
  The kernel driver \<open>dh895xccvf\<close> is loaded and has no VF, the other kernel drivers,
  \<open>c6xxvf\<close> among them, are not loaded, and one VF with a known ID is bound to the DPDK
  driver.
\<close>

definition c6xxvf_absent_host :: simfs where
  "c6xxvf_absent_host =
     host_of [(''dh895xccvf'', []), (''vfio-pci'', [''0000:01:00.0''])]
       [(''0000:01:00.0'', ''0x37c9\<newline>'')]"

text \<open>
  Two VFs with a known ID, both bound to the DPDK driver; the IOMMU group of the first
  cannot be resolved.
\<close>

definition unresolved_host :: simfs where
  "unresolved_host =
     two_bound_host\<lparr>sim_groups := [(''0000:01:00.1'', ''/sys/kernel/iommu_groups/8'')]\<rparr>"


text \<open>
  One VF with a known ID, bound to the DPDK driver, which is removed from the host during
  the first sleep.
\<close>

definition unplug_host :: simfs where
  "unplug_host = bound_host\<lparr>sim_unplug := [[''0000:01:00.0'']]\<rparr>"

text \<open>
  One VF with a known ID, bound to the kernel driver \<open>c6xxvf\<close>; \<open>refusing p\<close> is that host
  with the writes to the path \<open>p\<close> failing.
\<close>

definition refusing :: "string \<Rightarrow> simfs" where
  "refusing p =
     (host_of [(''c6xxvf'', [''0000:01:00.0'']), (''vfio-pci'', [])]
        [(''0000:01:00.0'', ''0x37c9\<newline>'')])\<lparr>sim_nowrite := [p]\<rparr>"

section \<open>Lemmas on the log and the loops\<close>

text \<open>
  Each call appends its own events to the log and nothing else; \<open>getDeviceInfo\<close> and the
  functions below it never call \<open>AddDevice\<close>, the notifier or \<open>time.Sleep\<close>.
\<close>

lemma added_append: "added (xs @ ys) = added xs @ added ys"
  by (induction xs rule: added.induct) simp_all

lemma notified_append: "notified (xs @ ys) = notified xs @ notified ys"
  by (induction xs rule: notified.induct) simp_all

lemma written_append: "written (xs @ ys) = written xs @ written ys"
  by (induction xs rule: written.induct) simp_all

lemma listed_append: "listed (xs @ ys) = listed xs @ listed ys"
  by (induction xs rule: listed.induct) simp_all

lemma slept_append: "slept (xs @ ys) = slept xs @ slept ys"
  by (induction xs rule: slept.induct) simp_all

lemma quiet_append: "quiet (xs @ ys) = (quiet xs \<and> quiet ys)"
  by (auto simp: quiet_def added_append notified_append slept_append)

lemma quiet_Nil: "quiet []"
  by (simp add: quiet_def)

lemma quiet_host_calls:
  "quiet (EvReadDir p # evs) = quiet evs" "quiet (EvReadFile p # evs) = quiet evs"
  "quiet (EvWriteFile p c # evs) = quiet evs" "quiet (EvEvalSymlinks p # evs) = quiet evs"
  "quiet (EvPrintf f args # evs) = quiet evs"
  by (simp_all add: quiet_def)

lemma trace_emit: "trace (emit e w) = trace w @ [e]"
  by (simp add: emit_def)

lemma ReadDir_frame:
  "ioutil_ReadDir h p w = (r, w') \<Longrightarrow> trace w' = trace w @ [EvReadDir p]"
  by (auto simp: ioutil_ReadDir_def trace_emit split: prod.splits)

lemma ReadFile_frame:
  "ioutil_ReadFile h p w = (r, w') \<Longrightarrow> trace w' = trace w @ [EvReadFile p]"
  by (auto simp: ioutil_ReadFile_def trace_emit split: prod.splits)

lemma WriteFile_frame:
  "ioutil_WriteFile h p c w = (r, w') \<Longrightarrow> trace w' = trace w @ [EvWriteFile p c]"
  by (auto simp: ioutil_WriteFile_def trace_emit split: prod.splits)

lemma EvalSymlinks_frame:
  "filepath_EvalSymlinks h p w = (r, w') \<Longrightarrow> trace w' = trace w @ [EvEvalSymlinks p]"
  by (auto simp: filepath_EvalSymlinks_def trace_emit split: prod.splits)

lemma Printf_frame: "trace (Printf f args w) = trace w @ [EvPrintf f args]"
  by (simp add: Printf_def trace_emit)

lemma getDpdkDevice_log:
  "getDpdkDevice h dp i w = (r, w') \<Longrightarrow> \<exists>evs. trace w' = trace w @ evs \<and> quiet evs"
  by (auto simp: getDpdkDevice_def Let_def Printf_frame quiet_append quiet_Nil quiet_host_calls
      dest!: ReadDir_frame EvalSymlinks_frame
      split: if_splits prod.splits sum.splits list.splits)

lemma getDpdkDeviceNames_log:
  "getDpdkDeviceNames h dp i w = (r, w') \<Longrightarrow> \<exists>evs. trace w' = trace w @ evs \<and> quiet evs"
  by (auto simp: getDpdkDeviceNames_def Let_def Printf_frame quiet_append quiet_Nil quiet_host_calls
      dest!: getDpdkDevice_log
      split: if_splits prod.splits sum.splits)

lemma getDpdkMountPaths_log:
  "getDpdkMountPaths h dp i w = (r, w') \<Longrightarrow> \<exists>evs. trace w' = trace w @ evs \<and> quiet evs"
  by (auto simp: getDpdkMountPaths_def Let_def
      dest!: getDpdkDevice_log
      split: if_splits prod.splits sum.splits)

lemma getDeviceID_frame:
  "getDeviceID h dp a w = (r, w') \<Longrightarrow>
     trace w' = trace w @ [EvReadFile (path_Join [pciDeviceDir dp, a, ''device''])]"
  by (auto simp: getDeviceID_def dest!: ReadFile_frame split: prod.splits sum.splits)

lemma bindDevice_log:
  "bindDevice h dp i w = (r, w') \<Longrightarrow> \<exists>evs. trace w' = trace w @ evs \<and> quiet evs"
  by (auto simp: bindDevice_def Let_def quiet_append quiet_Nil quiet_host_calls
      dest!: WriteFile_frame getDeviceID_frame
      split: prod.splits sum.splits option.splits)

lemma getDeviceInfo_log:
  "getDeviceInfo h dp a c w = (r, w') \<Longrightarrow> \<exists>evs. trace w' = trace w @ evs \<and> quiet evs"
  by (auto simp: getDeviceInfo_def Let_def quiet_append quiet_Nil quiet_host_calls
      dest!: getDeviceID_frame bindDevice_log getDpdkDeviceNames_log getDpdkMountPaths_log
      split: prod.splits sum.splits option.splits if_splits)

lemma deviceName: "ToUpper (TrimSuffix namespace ''.intel.com'') = ''QAT''"
  by code_simp

lemma getDeviceInfo_descriptor:
  "getDeviceInfo h dp a c w = ((info, None), w') \<Longrightarrow>
     info = emptyDeviceInfo
     \<or> (State info = Healthy \<and> Envs info = [(''QAT'' @ itoa c, ''0000:'' @ a)])"
  by (auto simp: getDeviceInfo_def Let_def deviceName
      split: prod.splits sum.splits option.splits if_splits)

lemma replay_Nil: "replay t [] = t"
  by (simp add: replay_def)

lemma replay_Cons: "replay t ((i, d) # calls) = replay (AddDevice t ''generic'' i d) calls"
  by (simp add: replay_def)

lemma descriptor_AddDevice:
  "descriptor (AddDevice t ''generic'' i d) a = (if a = i then Some d else descriptor t a)"
  by (auto simp: descriptor_def AddDevice_def update_conv' split: option.splits)

lemma descriptor_replay:
  "a \<notin> fst ` set calls \<Longrightarrow> descriptor (replay t calls) a = descriptor t a"
  by (induction calls arbitrary: t) (auto simp: replay_Nil replay_Cons descriptor_AddDevice)

text \<open>
  The loops of \<open>scan\<close> extend the log by host calls, \<open>Printf\<close> and \<open>AddDevice\<close> only; the
  tree they return is the tree they were given with the \<open>AddDevice\<close> calls of their log
  applied in order; and each \<open>AddDevice\<close> of the first loop uses up one unit of what the
  counter leaves below the cap.
\<close>

lemma scan_files_log:
  "scan_files h dp driver files b fn t w = ((b', fn', t'), w') \<Longrightarrow>
     \<exists>evs. trace w' = trace w @ evs \<and> notified evs = [] \<and> slept evs = []
       \<and> t' = replay t (added evs) \<and> b \<le> b'
       \<and> int (length (added evs)) + max 0 (maxDevices dp - b') \<le> max 0 (maxDevices dp - b)"
proof (induction files arbitrary: b fn t w)
  case Nil
  then show ?case
    by (intro exI [of _ "[]"]) (simp add: replay_Nil)
next
  case (Cons f fs)
  show ?case
  proof (cases "HasPrefix f ''0000:'' \<and> driver = dpdkDriver dp")
    case False
    with Cons.prems
    have "scan_files h dp driver fs b (if HasPrefix f ''0000:'' then fn @ [f] else fn) t w
        = ((b', fn', t'), w')"
      by (auto split: if_splits)
    from Cons.IH [OF this] show ?thesis .
  next
    case True
    show ?thesis
    proof (cases "b + 1 > maxDevices dp")
      case over: True
      with True Cons.prems show ?thesis
        by (intro exI [of _ "[]"]) (auto simp: replay_Nil)
    next
      case within: False
      obtain info e w1 where
        g: "getDeviceInfo h dp (TrimPrefix f ''0000:'') (b + 1) w = ((info, e), w1)"
        by (metis prod.exhaust)
      from getDeviceInfo_log [OF g] obtain e1 where
        e1: "trace w1 = trace w @ e1" "added e1 = []" "notified e1 = []" "slept e1 = []"
        by (auto simp: quiet_def)
      show ?thesis
      proof (cases e)
        case None
        with True within g Cons.prems
        have "scan_files h dp driver fs (b + 1) (fn @ [f])
                (AddDevice t ''generic'' (TrimPrefix f ''0000:'') info)
                (emit (EvAddDevice ''generic'' (TrimPrefix f ''0000:'') info) w1)
              = ((b', fn', t'), w')"
          by (simp add: devTree_AddDevice_def)
        from Cons.IH [OF this] obtain e2 where
          e2: "trace w' = trace (emit (EvAddDevice ''generic'' (TrimPrefix f ''0000:'') info) w1) @ e2"
            "notified e2 = []" "slept e2 = []"
            "t' = replay (AddDevice t ''generic'' (TrimPrefix f ''0000:'') info) (added e2)"
            "b + 1 \<le> b'"
            "int (length (added e2)) + max 0 (maxDevices dp - b')
               \<le> max 0 (maxDevices dp - (b + 1))"
          by blast
        from e1 e2 within show ?thesis
          by (intro exI [of _ "e1 @ EvAddDevice ''generic'' (TrimPrefix f ''0000:'') info # e2"])
             (simp add: trace_emit added_append notified_append slept_append replay_Cons)
      next
        case (Some err)
        with True within g Cons.prems
        have "scan_files h dp driver fs (b + 1) (fn @ [f]) t
                (Printf ''Cannot get device info:'' [PErr err] w1)
              = ((b', fn', t'), w')"
          by simp
        from Cons.IH [OF this] obtain e2 where
          e2: "trace w' = trace (Printf ''Cannot get device info:'' [PErr err] w1) @ e2"
            "notified e2 = []" "slept e2 = []" "t' = replay t (added e2)" "b + 1 \<le> b'"
            "int (length (added e2)) + max 0 (maxDevices dp - b')
               \<le> max 0 (maxDevices dp - (b + 1))"
          by blast
        from e1 e2 within show ?thesis
          by (intro exI [of _ "e1 @ EvPrintf ''Cannot get device info:'' [PErr err] # e2"])
             (simp add: Printf_frame added_append notified_append slept_append)
      qed
    qed
  qed
qed

lemma scan_drivers_log:
  "scan_drivers h dp drivers b fn t w = ((b', fn', t'), w') \<Longrightarrow>
     \<exists>evs. trace w' = trace w @ evs \<and> notified evs = [] \<and> slept evs = []
       \<and> t' = replay t (added evs) \<and> b \<le> b'
       \<and> int (length (added evs)) + max 0 (maxDevices dp - b') \<le> max 0 (maxDevices dp - b)"
proof (induction drivers arbitrary: b fn t w)
  case Nil
  then show ?case
    by (intro exI [of _ "[]"]) (simp add: replay_Nil)
next
  case (Cons driver drivers)
  obtain r w1 where rd: "ioutil_ReadDir h (path_Join [pciDriverDir dp, driver]) w = (r, w1)"
    by (metis prod.exhaust)
  note f = ReadDir_frame [OF rd]
  show ?case
  proof (cases r)
    case (Inl err)
    with rd Cons.prems
    have "scan_drivers h dp drivers b fn t
            (Printf ''Can't read sysfs for driver as Driver %s is not available: Skipping\<newline>''
               [PStr driver] w1) = ((b', fn', t'), w')"
      by simp
    from Cons.IH [OF this] obtain e2 where
      e2: "trace w' = trace (Printf
              ''Can't read sysfs for driver as Driver %s is not available: Skipping\<newline>''
              [PStr driver] w1) @ e2"
        "notified e2 = []" "slept e2 = []" "t' = replay t (added e2)" "b \<le> b'"
        "int (length (added e2)) + max 0 (maxDevices dp - b') \<le> max 0 (maxDevices dp - b)"
      by blast
    from f e2 show ?thesis
      by (intro exI [of _ "EvReadDir (path_Join [pciDriverDir dp, driver])
            # EvPrintf ''Can't read sysfs for driver as Driver %s is not available: Skipping\<newline>''
                [PStr driver] # e2"])
         (simp add: Printf_frame)
  next
    case (Inr files)
    obtain b1 fn1 t1 w2 where sf: "scan_files h dp driver files b fn t w1 = ((b1, fn1, t1), w2)"
      by (metis prod.exhaust)
    with Inr rd Cons.prems
    have "scan_drivers h dp drivers b1 fn1 t1 w2 = ((b', fn', t'), w')"
      by simp
    from Cons.IH [OF this] obtain e2 where
      e2: "trace w' = trace w2 @ e2" "notified e2 = []" "slept e2 = []"
        "t' = replay t1 (added e2)" "b1 \<le> b'"
        "int (length (added e2)) + max 0 (maxDevices dp - b') \<le> max 0 (maxDevices dp - b1)"
      by blast
    from scan_files_log [OF sf] obtain e1 where
      e1: "trace w2 = trace w1 @ e1" "notified e1 = []" "slept e1 = []"
        "t1 = replay t (added e1)" "b \<le> b1"
        "int (length (added e1)) + max 0 (maxDevices dp - b1) \<le> max 0 (maxDevices dp - b)"
      by blast
    from f e1 e2 show ?thesis
      by (intro exI [of _ "EvReadDir (path_Join [pciDriverDir dp, driver]) # e1 @ e2"])
         (simp add: added_append notified_append slept_append replay_def)
  qed
qed

lemma scan_rebind_log:
  "scan_rebind h dp need b files n t w = (t', w') \<Longrightarrow>
     \<exists>evs. trace w' = trace w @ evs \<and> notified evs = [] \<and> slept evs = []
       \<and> t' = replay t (added evs)
       \<and> int (length (added evs)) \<le> max 0 (need - n)
       \<and> list_all (\<lambda>(i, d). d = emptyDeviceInfo
             \<or> (State d = Healthy \<and> Envs d = [(''QAT'' @ itoa b, ''0000:'' @ i)])) (added evs)"
proof (induction files arbitrary: n t w)
  case Nil
  then show ?case
    by (intro exI [of _ "[]"]) (simp add: replay_Nil)
next
  case (Cons f fs)
  show ?case
  proof (cases "n + 1 > need")
    case True
    with Cons.prems show ?thesis
      by (intro exI [of _ "[]"]) (simp add: replay_Nil)
  next
    case within: False
    obtain info e w1 where
      g: "getDeviceInfo h dp (TrimPrefix f ''0000:'') b w = ((info, e), w1)"
      by (metis prod.exhaust)
    from getDeviceInfo_log [OF g] obtain e1 where
      e1: "trace w1 = trace w @ e1" "added e1 = []" "notified e1 = []" "slept e1 = []"
      by (auto simp: quiet_def)
    show ?thesis
    proof (cases e)
      case None
      with within g Cons.prems
      have "scan_rebind h dp need b fs (n + 1)
              (AddDevice t ''generic'' (TrimPrefix f ''0000:'') info)
              (emit (EvAddDevice ''generic'' (TrimPrefix f ''0000:'') info) w1) = (t', w')"
        by (simp add: devTree_AddDevice_def)
      from Cons.IH [OF this] obtain e2 where
        e2: "trace w' = trace (emit (EvAddDevice ''generic'' (TrimPrefix f ''0000:'') info) w1) @ e2"
          "notified e2 = []" "slept e2 = []"
          "t' = replay (AddDevice t ''generic'' (TrimPrefix f ''0000:'') info) (added e2)"
          "int (length (added e2)) \<le> max 0 (need - (n + 1))"
          "list_all (\<lambda>(i, d). d = emptyDeviceInfo
             \<or> (State d = Healthy \<and> Envs d = [(''QAT'' @ itoa b, ''0000:'' @ i)])) (added e2)"
        by blast
      from g None have "info = emptyDeviceInfo
          \<or> (State info = Healthy
              \<and> Envs info = [(''QAT'' @ itoa b, ''0000:'' @ TrimPrefix f ''0000:'')])"
        by (auto dest: getDeviceInfo_descriptor)
      with e1 e2 within show ?thesis
        by (intro exI [of _ "e1 @ EvAddDevice ''generic'' (TrimPrefix f ''0000:'') info # e2"])
           (simp add: trace_emit added_append notified_append slept_append replay_Cons)
    next
      case (Some err)
      with within g Cons.prems
      have "scan_rebind h dp need b fs (n + 1) t
              (Printf ''Cannot get device info:'' [PErr err] w1) = (t', w')"
        by simp
      from Cons.IH [OF this] obtain e2 where
        e2: "trace w' = trace (Printf ''Cannot get device info:'' [PErr err] w1) @ e2"
          "notified e2 = []" "slept e2 = []" "t' = replay t (added e2)"
          "int (length (added e2)) \<le> max 0 (need - (n + 1))"
          "list_all (\<lambda>(i, d). d = emptyDeviceInfo
             \<or> (State d = Healthy \<and> Envs d = [(''QAT'' @ itoa b, ''0000:'' @ i)])) (added e2)"
        by blast
      from e1 e2 within show ?thesis
        by (intro exI [of _ "e1 @ EvPrintf ''Cannot get device info:'' [PErr err] # e2"])
           (simp add: Printf_frame added_append notified_append slept_append)
    qed
  qed
qed

lemma scan_cases:
  obtains b fn t1 w1 t2 w2 where
    "scan_inventory h dp t w = ((b, fn, t1), w1)"
    "b < maxDevices dp"
    "scan_rebind h dp (maxDevices dp - b) b fn 0 t1 w1 = (t2, w2)"
    "scan h dp t w = ((t2, None), w2)"
  | b fn t1 w1 where
    "scan_inventory h dp t w = ((b, fn, t1), w1)"
    "maxDevices dp \<le> b"
    "scan h dp t w = ((t1, None), w1)"
proof -
  obtain b fn t1 w1 where sd: "scan_inventory h dp t w = ((b, fn, t1), w1)"
    by (metis prod.exhaust)
  show thesis
  proof (cases "b < maxDevices dp")
    case True
    obtain t2 w2 where sr: "scan_rebind h dp (maxDevices dp - b) b fn 0 t1 w1 = (t2, w2)"
      by (metis prod.exhaust)
    with sd True have "scan h dp t w = ((t2, None), w2)"
      by (simp add: scan_def)
    with sd True sr that(1) show thesis by blast
  next
    case False
    with sd have "scan h dp t w = ((t1, None), w1)"
      by (simp add: scan_def)
    with sd False that(2) show thesis by force
  qed
qed

lemma scan_no_error: "snd (fst (scan h dp t w)) = None"
  by (rule scan_cases [of h dp t w]) simp_all

lemma scan_log:
  "\<exists>evs. trace (snd (scan h dp t w)) = trace w @ evs \<and> notified evs = [] \<and> slept evs = []
     \<and> fst (fst (scan h dp t w)) = replay t (added evs)
     \<and> int (length (added evs)) \<le> max 0 (maxDevices dp)"
proof (rule scan_cases [of h dp t w])
  fix b fn t1 w1 t2 w2
  assume sd: "scan_inventory h dp t w = ((b, fn, t1), w1)"
    and lt: "b < maxDevices dp"
    and sr: "scan_rebind h dp (maxDevices dp - b) b fn 0 t1 w1 = (t2, w2)"
    and s: "scan h dp t w = ((t2, None), w2)"
  from scan_drivers_log [OF sd [unfolded scan_inventory_def]] obtain e1 where
    e1: "trace w1 = trace w @ e1" "notified e1 = []" "slept e1 = []"
      "t1 = replay t (added e1)" "0 \<le> b"
      "int (length (added e1)) + max 0 (maxDevices dp - b) \<le> max 0 (maxDevices dp - 0)"
    by blast
  from scan_rebind_log [OF sr] obtain e2 where
    e2: "trace w2 = trace w1 @ e2" "notified e2 = []" "slept e2 = []"
      "t2 = replay t1 (added e2)"
      "int (length (added e2)) \<le> max 0 (maxDevices dp - b - 0)"
    by blast
  from e1 e2 s lt show ?thesis
    by (intro exI [of _ "e1 @ e2"])
       (simp add: added_append notified_append slept_append replay_def)
next
  fix b fn t1 w1
  assume sd: "scan_inventory h dp t w = ((b, fn, t1), w1)"
    and ge: "maxDevices dp \<le> b"
    and s: "scan h dp t w = ((t1, None), w1)"
  from scan_drivers_log [OF sd [unfolded scan_inventory_def]] obtain e1 where
    e1: "trace w1 = trace w @ e1" "notified e1 = []" "slept e1 = []"
      "t1 = replay t (added e1)" "0 \<le> b"
      "int (length (added e1)) + max 0 (maxDevices dp - b) \<le> max 0 (maxDevices dp - 0)"
    by blast
  from e1 s ge show ?thesis
    by (intro exI [of _ e1]) simp
qed

text \<open>The body of the loop of \<open>Scan\<close> never returns: it notifies, sleeps and goes on.\<close>

lemma Scan_step_runs:
  "Scan_step h dp t w =
     Inr (fst (fst (scan h dp t w)),
          time_Sleep h (5 * time_Second)
            (notifier_Notify (fst (fst (scan h dp t w))) (snd (scan h dp t w))))"
proof -
  obtain t' e w' where s: "scan h dp t w = ((t', e), w')"
    by (metis prod.exhaust)
  with scan_no_error [of h dp t w] have "e = None" by simp
  with s show ?thesis
    by (simp add: Scan_step_def)
qed

lemma Scan_step_trace:
  "trace (time_Sleep h d (notifier_Notify t' w')) = trace w' @ [EvNotify t', EvSleep d]"
  by (simp add: time_Sleep_def notifier_Notify_def trace_emit)

lemma Scan_loop_None: "Scan_loop h dp t w = None"
proof -
  have "False" if ret: "Scan_loop h dp t w = Some y" for y
  proof (rule Scan_loop.raw_induct [where P = "\<lambda>h dp t w y. False", OF _ ret])
    fix loop :: "'a host \<Rightarrow> devicePlugin \<Rightarrow> DeviceTree \<Rightarrow> 'a world \<Rightarrow> (error \<times> 'a world) option"
      and h dp t w y
    assume IH: "\<And>h dp t w y. loop h dp t w = Some y \<Longrightarrow> False"
      and step: "(case Scan_step h dp t w of
                    Inl (err, w') \<Rightarrow> Some (err, w')
                  | Inr (devTree, w') \<Rightarrow> loop h dp devTree w') = Some y"
    from step have "loop h dp (fst (fst (scan h dp t w)))
        (time_Sleep h (5 * time_Second)
           (notifier_Notify (fst (fst (scan h dp t w))) (snd (scan h dp t w)))) = Some y"
      by (simp add: Scan_step_runs)
    then show False by (rule IH)
  qed
  then show ?thesis by (cases "Scan_loop h dp t w") auto
qed

lemma Scan_iterations_run:
  "\<exists>t' w'. Scan_iterations k h dp t w = (Inr t', w')
     \<and> length (notified (trace w')) = length (notified (trace w)) + k
     \<and> slept (trace w') = slept (trace w) @ replicate k (5 * time_Second)"
proof (induction k arbitrary: t w)
  case 0
  show ?case by simp
next
  case (Suc k)
  let ?t1 = "fst (fst (scan h dp t w))"
  let ?w1 = "snd (scan h dp t w)"
  let ?w2 = "time_Sleep h (5 * time_Second) (notifier_Notify ?t1 ?w1)"
  from scan_log [of h dp t w] obtain evs where
    evs: "trace ?w1 = trace w @ evs" "notified evs = []" "slept evs = []"
    by blast
  then have n: "notified (trace ?w2) = notified (trace w) @ [?t1]"
    and sl: "slept (trace ?w2) = slept (trace w) @ [5 * time_Second]"
    by (simp_all add: Scan_step_trace notified_append slept_append)
  from Suc.IH [of ?t1 ?w2] obtain t' w' where
    "Scan_iterations k h dp ?t1 ?w2 = (Inr t', w')"
    "length (notified (trace w')) = length (notified (trace ?w2)) + k"
    "slept (trace w') = slept (trace ?w2) @ replicate k (5 * time_Second)"
    by blast
  with n sl show ?case
    by (simp add: Scan_step_runs replicate_append_same)
qed

lemma main_exit:
  "fst (main d ks m w) =
     (if isValidDpdkDeviceDriver d \<and> list_all isValidKerneDriver (splitComma ks)
      then Inr (newDevicePlugin pciDriverDirectory pciDeviceDirectory m (splitComma ks) d)
      else Inl 1)"
  by (auto simp: main_def Let_def find_None_iff list_all_iff find_Some_iff split: option.splits)

text \<open>
  What \<open>trimRunes\<close> removes is a run of the given strings, and what it leaves starts with
  none of them; \<open>TrimSpace\<close> therefore cuts a run of white space off each end and leaves a
  string that neither starts nor ends with white space.
\<close>

lemma trimRunes_stripped:
  "\<exists>ls. set ls \<subseteq> set rs \<and> s = concat ls @ trimRunes rs s"
proof (induction rs s rule: trimRunes.induct)
  case (1 rs s)
  show ?case
  proof (cases "find (\<lambda>e. e \<noteq> [] \<and> prefix e s) rs")
    case None
    then have "trimRunes rs s = s"
      by (simp add: trimRunes.simps)
    then have "set [] \<subseteq> set rs \<and> s = concat [] @ trimRunes rs s"
      by simp
    then show ?thesis by blast
  next
    case (Some e)
    then have e: "e \<in> set rs" "prefix e s"
      by (auto simp: find_Some_iff)
    from Some have t: "trimRunes rs s = trimRunes rs (drop (length e) s)"
      by (simp add: trimRunes.simps)
    from "1.IH" [OF Some] obtain ls where
      ls: "set ls \<subseteq> set rs" "drop (length e) s = concat ls @ trimRunes rs (drop (length e) s)"
      by blast
    from e(2) have "s = e @ drop (length e) s"
      by (auto simp: prefix_def)
    with ls(2) t have "s = concat (e # ls) @ trimRunes rs s"
      by simp
    with ls(1) e(1) have "set (e # ls) \<subseteq> set rs \<and> s = concat (e # ls) @ trimRunes rs s"
      by simp
    then show ?thesis by blast
  qed
qed

lemma trimRunes_done:
  "e \<in> set rs \<Longrightarrow> e \<noteq> [] \<Longrightarrow> \<not> prefix e (trimRunes rs s)"
proof (induction rs s rule: trimRunes.induct)
  case (1 rs s)
  show ?case
  proof (cases "find (\<lambda>e. e \<noteq> [] \<and> prefix e s) rs")
    case None
    then have "trimRunes rs s = s"
      by (simp add: trimRunes.simps)
    with None "1.prems" show ?thesis
      by (auto simp: find_None_iff)
  next
    case (Some e')
    then have "trimRunes rs s = trimRunes rs (drop (length e') s)"
      by (simp add: trimRunes.simps)
    with "1.IH" [OF Some "1.prems"] show ?thesis by simp
  qed
qed

lemma spaceRunes_nonempty: "e \<in> set spaceRunes \<Longrightarrow> e \<noteq> []"
  by (auto simp: spaceRunes_def)

lemma TrimSpace_spec:
  "\<exists>ls rs. s = concat ls @ TrimSpace s @ concat rs
     \<and> set ls \<subseteq> set spaceRunes \<and> set rs \<subseteq> set spaceRunes
     \<and> (\<forall>e \<in> set spaceRunes. \<not> prefix e (TrimSpace s) \<and> \<not> suffix e (TrimSpace s))"
proof -
  define m where "m = trimRunes spaceRunes s"
  define t where "t = trimRunes (map rev spaceRunes) (rev m)"
  have ts: "TrimSpace s = rev t"
    by (simp add: TrimSpace_def m_def t_def)
  obtain ls where ls: "set ls \<subseteq> set spaceRunes" "s = concat ls @ m"
    using trimRunes_stripped [of spaceRunes s] by (auto simp: m_def)
  obtain ls' where ls': "set ls' \<subseteq> set (map rev spaceRunes)" "rev m = concat ls' @ t"
    using trimRunes_stripped [of "map rev spaceRunes" "rev m"] by (auto simp: t_def)
  from ls'(2) have "rev (rev m) = rev (concat ls' @ t)" by simp
  then have m: "m = rev t @ concat (map rev (rev ls'))"
    by (simp add: rev_concat)
  from ls'(1) have rs: "set (map rev (rev ls')) \<subseteq> set spaceRunes"
    by (auto simp: subset_iff)
  have no: "\<not> prefix e (rev t) \<and> \<not> suffix e (rev t)" if e: "e \<in> set spaceRunes" for e
  proof
    from e have ne: "e \<noteq> []" by (rule spaceRunes_nonempty)
    from trimRunes_done [OF e ne, of s] have "\<not> prefix e m" by (simp add: m_def)
    with m show "\<not> prefix e (rev t)"
      by (metis prefix_prefix)
    from e have "rev e \<in> set (map rev spaceRunes)" by simp
    from trimRunes_done [OF this, of "rev m"] ne have "\<not> prefix (rev e) t"
      by (simp add: t_def)
    then show "\<not> suffix e (rev t)"
      by (simp add: suffix_to_prefix)
  qed
  from ls m rs no ts show ?thesis
    by metis
qed

lemma TrimPrefix_prefix: "TrimPrefix s p = (if prefix p s then drop (length p) s else s)"
  by (auto simp: TrimPrefix_def HasPrefix_def prefix_def)
     (metis append_eq_conv_conj)

text \<open>
  The first loop, driver by driver: a driver other than the DPDK driver only has its
  \<open>0000:\<close> entries collected; under the DPDK driver every \<open>0000:\<close> entry is collected and
  counted until the counter has passed the cap.
\<close>

lemma scan_files_kernel:
  "driver \<noteq> dpdkDriver dp \<Longrightarrow>
     scan_files h dp driver files b fn t w
       = ((b, fn @ filter (\<lambda>f. HasPrefix f ''0000:'') files, t), w)"
  by (induction files arbitrary: fn) simp_all

lemma scan_drivers_append:
  "scan_drivers h dp (ds @ ds') b fn t w =
     (case scan_drivers h dp ds b fn t w of
        ((b1, fn1, t1), w1) \<Rightarrow> scan_drivers h dp ds' b1 fn1 t1 w1)"
  by (induction ds arbitrary: b fn t w) (auto split: prod.splits sum.splits)

lemma scan_drivers_kernel:
  "dpdkDriver dp \<notin> set drivers \<Longrightarrow>
   scan_drivers h dp drivers b fn t w = ((b', fn', t'), w') \<Longrightarrow>
     b' = b \<and> t' = t
     \<and> (\<exists>evs. trace w' = trace w @ evs
           \<and> listed evs = map (\<lambda>d. path_Join [pciDriverDir dp, d]) drivers
           \<and> list_all (\<lambda>e. case e of EvReadDir p \<Rightarrow> True | EvPrintf f a \<Rightarrow> True | _ \<Rightarrow> False) evs)"
proof (induction drivers arbitrary: fn w)
  case Nil
  then show ?case by simp
next
  case (Cons driver drivers)
  from Cons.prems(1) have nd: "driver \<noteq> dpdkDriver dp" and rest: "dpdkDriver dp \<notin> set drivers"
    by auto
  obtain r w1 where rd: "ioutil_ReadDir h (path_Join [pciDriverDir dp, driver]) w = (r, w1)"
    by (metis prod.exhaust)
  note f = ReadDir_frame [OF rd]
  show ?case
  proof (cases r)
    case (Inl err)
    with rd Cons.prems(2)
    have "scan_drivers h dp drivers b fn t
            (Printf ''Can't read sysfs for driver as Driver %s is not available: Skipping\<newline>''
               [PStr driver] w1) = ((b', fn', t'), w')"
      by simp
    from Cons.IH [OF rest this] obtain evs where
      "b' = b" "t' = t"
      "trace w' = trace w @ EvReadDir (path_Join [pciDriverDir dp, driver])
         # EvPrintf ''Can't read sysfs for driver as Driver %s is not available: Skipping\<newline>''
             [PStr driver] # evs"
      "listed evs = map (\<lambda>d. path_Join [pciDriverDir dp, d]) drivers"
      "list_all (\<lambda>e. case e of EvReadDir p \<Rightarrow> True | EvPrintf f a \<Rightarrow> True | _ \<Rightarrow> False) evs"
      using f by (auto simp: Printf_frame)
    then show ?thesis by auto
  next
    case (Inr files)
    with rd Cons.prems(2) nd
    have "scan_drivers h dp drivers b (fn @ filter (\<lambda>f. HasPrefix f ''0000:'') files) t w1
            = ((b', fn', t'), w')"
      by (simp add: scan_files_kernel)
    from Cons.IH [OF rest this] obtain evs where
      "b' = b" "t' = t"
      "trace w' = trace w @ EvReadDir (path_Join [pciDriverDir dp, driver]) # evs"
      "listed evs = map (\<lambda>d. path_Join [pciDriverDir dp, d]) drivers"
      "list_all (\<lambda>e. case e of EvReadDir p \<Rightarrow> True | EvPrintf f a \<Rightarrow> True | _ \<Rightarrow> False) evs"
      using f by auto
    then show ?thesis by auto
  qed
qed

lemma scan_files_count:
  "scan_files h dp (dpdkDriver dp) files b fn t w = ((b', fn', t'), w') \<Longrightarrow>
     b' = b + int (min (length (filter (\<lambda>f. HasPrefix f ''0000:'') files))
                       (nat (maxDevices dp - b) + 1))
     \<and> fn' = fn @ take (nat (maxDevices dp - b) + 1) (filter (\<lambda>f. HasPrefix f ''0000:'') files)"
proof (induction files arbitrary: b fn t w)
  case Nil
  then show ?case by simp
next
  case (Cons f fs)
  show ?case
  proof (cases "HasPrefix f ''0000:''")
    case False
    with Cons.prems have "scan_files h dp (dpdkDriver dp) fs b fn t w = ((b', fn', t'), w')"
      by simp
    from Cons.IH [OF this] False show ?thesis by simp
  next
    case True
    show ?thesis
    proof (cases "b + 1 > maxDevices dp")
      case over: True
      with True Cons.prems show ?thesis by auto
    next
      case within: False
      then have k: "nat (maxDevices dp - b) = Suc (nat (maxDevices dp - (b + 1)))"
        by simp
      obtain info e w1 where g: "getDeviceInfo h dp (TrimPrefix f ''0000:'') (b + 1) w = ((info, e), w1)"
        by (metis prod.exhaust)
      from True within g Cons.prems obtain t1 w2 where
        "scan_files h dp (dpdkDriver dp) fs (b + 1) (fn @ [f]) t1 w2 = ((b', fn', t'), w')"
        by (cases e) (auto simp: devTree_AddDevice_def)
      from Cons.IH [OF this] True show ?thesis
        by (simp add: k)
    qed
  qed
qed

lemma scan_files_skip:
  "filter (\<lambda>f. HasPrefix f ''0000:'') xs = [] \<Longrightarrow>
     scan_files h dp driver (xs @ ys) b fn t w = scan_files h dp driver ys b fn t w"
  by (induction xs) (auto split: if_splits)

text \<open>
  With cap 1 and at least two \<open>0000:\<close> entries under the DPDK driver, the first entry is
  passed to \<open>getDeviceInfo\<close> with ordinal 1 and the second ends the enumeration.
\<close>

lemma scan_files_cap_one:
  assumes cap: "maxDevices dp = 1"
    and entries: "filter (\<lambda>f. HasPrefix f ''0000:'') files = f1 # f2 # others"
    and info: "getDeviceInfo h dp (TrimPrefix f1 ''0000:'') 1 w = ((info, e), w1)"
  shows "scan_files h dp (dpdkDriver dp) files 0 fn t w =
           (case e of
              None \<Rightarrow>
                ((2, fn @ [f1, f2], AddDevice t ''generic'' (TrimPrefix f1 ''0000:'') info),
                 emit (EvAddDevice ''generic'' (TrimPrefix f1 ''0000:'') info) w1)
            | Some err \<Rightarrow>
                ((2, fn @ [f1, f2], t), Printf ''Cannot get device info:'' [PErr err] w1))"
proof -
  from entries have "\<exists>us vs. files = us @ f1 # vs \<and> (\<forall>u\<in>set us. \<not> HasPrefix u ''0000:'')
      \<and> HasPrefix f1 ''0000:'' \<and> f2 # others = filter (\<lambda>f. HasPrefix f ''0000:'') vs"
    by (simp only: filter_eq_Cons_iff)
  then obtain us vs where
    files: "files = us @ f1 # vs" and nus: "\<forall>u\<in>set us. \<not> HasPrefix u ''0000:''"
    and f1: "HasPrefix f1 ''0000:''"
    and vs: "f2 # others = filter (\<lambda>f. HasPrefix f ''0000:'') vs"
    by blast
  from nus have us: "filter (\<lambda>f. HasPrefix f ''0000:'') us = []"
    by (simp add: filter_empty_conv)
  from vs have "\<exists>us' vs'. vs = us' @ f2 # vs' \<and> (\<forall>u\<in>set us'. \<not> HasPrefix u ''0000:'')
      \<and> HasPrefix f2 ''0000:'' \<and> others = filter (\<lambda>f. HasPrefix f ''0000:'') vs'"
    by (simp only: Cons_eq_filter_iff)
  then obtain us' vs' where
    vs': "vs = us' @ f2 # vs'" and nus': "\<forall>u\<in>set us'. \<not> HasPrefix u ''0000:''"
    and f2: "HasPrefix f2 ''0000:''"
    by blast
  from nus' have us': "filter (\<lambda>f. HasPrefix f ''0000:'') us' = []"
    by (simp add: filter_empty_conv)
  have second: "scan_files h dp (dpdkDriver dp) vs 1 fn' t' w' = ((2, fn' @ [f2], t'), w')"
    for fn' t' and w' :: "'a world"
    using cap f2 by (simp add: vs' scan_files_skip [OF us'])
  have "scan_files h dp (dpdkDriver dp) files 0 fn t w
      = scan_files h dp (dpdkDriver dp) (f1 # vs) 0 fn t w"
    by (simp add: files scan_files_skip [OF us])
  also have "\<dots> = (case e of
              None \<Rightarrow>
                ((2, fn @ [f1, f2], AddDevice t ''generic'' (TrimPrefix f1 ''0000:'') info),
                 emit (EvAddDevice ''generic'' (TrimPrefix f1 ''0000:'') info) w1)
            | Some err \<Rightarrow>
                ((2, fn @ [f1, f2], t), Printf ''Cannot get device info:'' [PErr err] w1))"
    using cap f1 info by (cases e) (simp_all add: second devTree_AddDevice_def)
  finally show ?thesis .
qed

section \<open>Unknown device IDs\<close>

text \<open>
  C1. The claim: a VF whose device ID is outside the allow-list never appears in a
  snapshot. The code at such a device: \<open>1234\<close> is not in the allow-list, \<open>getDeviceInfo\<close>
  returns the zero descriptor and no error, and \<open>scan\<close>, which only skips a device on an
  error, adds that zero descriptor under the device's address: with one such VF under
  the DPDK driver the snapshot of the cycle holds it.
\<close>

theorem scan_adds_unknown_device:
  "\<not> isValidVfDeviceID ''1234''
   \<and> fst (getDeviceInfo sim_host (plugin 32) ''01:00.0'' 1 (start unknown_host))
       = (emptyDeviceInfo, None)
   \<and> fst (scan sim_host (plugin 32) NewDeviceTree (start unknown_host))
       = ([(''generic'', [(''01:00.0'', emptyDeviceInfo)])], None)"
  by code_simp

section \<open>Rebinding of devices already under the DPDK driver\<close>

text \<open>
  C5. The claim: \<open>bindDevice\<close> is never invoked for an address seen under the DPDK driver.
  The code at a host whose only VF is bound to the DPDK driver: the scan reads the
  DPDK driver's directory, finds the VF there, and writes the VF's address to its
  \<open>driver/unbind\<close> file and its ID to the DPDK driver's \<open>new_id\<close>, which are the two
  writes of \<open>bindDevice\<close>.
\<close>

theorem scan_rebinds_dpdk_bound_device:
  "fst (ReadDir sim_host ''/sys/bus/pci/drivers/vfio-pci'' bound_host)
     = Inr [''0000:01:00.0'', ''bind'', ''new_id'', ''unbind'']
   \<and> written (trace (snd (scan sim_host (plugin 1) NewDeviceTree (start bound_host))))
       = [(''/sys/bus/pci/devices/0000:01:00.0/driver/unbind'', ''0000:01:00.0''),
          (''/sys/bus/pci/drivers/vfio-pci/new_id'', ''8086 37c9'')]"
  by code_simp

section \<open>The device cap\<close>

text \<open>
  C2, as the code has it. In every scan cycle the number of descriptors added is at
  most the configured maximum device count (a maximum below zero counts as zero): this
  holds for the descriptors the first loop adds for the addresses under the DPDK
  driver, and for all descriptors of the cycle. When the counter of DPDK-bound addresses
  has reached the maximum, the second loop does nothing: the scan returns the tree and
  the log of the first loop. With maximum 1 and two or more \<open>0000:\<close> entries under the
  DPDK driver (which is not also a kernel VF driver), the first loop calls
  \<open>getDeviceInfo\<close> for the first entry only, with ordinal 1: when the call returns no
  error its descriptor is added and is the only one of the cycle, when it returns an
  error none is added; the counter ends at 2, the first two entries are the last ones
  collected, and the second loop processes no device, the scan ending right after the
  \<open>AddDevice\<close> or the message for the first entry.
\<close>

theorem scan_respects_cap:
  "int (length (added (trace (snd (scan_inventory h dp t w)))))
     \<le> int (length (added (trace w))) + max 0 (maxDevices dp)
   \<and> int (length (added (trace (snd (scan h dp t w)))))
     \<le> int (length (added (trace w))) + max 0 (maxDevices dp)
   \<and> (maxDevices dp \<le> fst (fst (scan_inventory h dp t w)) \<longrightarrow>
        scan h dp t w =
          (case scan_inventory h dp t w of ((b, fn, t1), w1) \<Rightarrow> ((t1, None), w1)))
   \<and> (maxDevices dp = 1 \<and> dpdkDriver dp \<notin> set (kernelVfDrivers dp)
        \<and> scan_drivers h dp (kernelVfDrivers dp) 0 [] t w = ((b0, fn0, t0), w0)
        \<and> ReadDir h (path_Join [pciDriverDir dp, dpdkDriver dp]) (hst w0) = (Inr files, s)
        \<and> filter (\<lambda>f. HasPrefix f ''0000:'') files = f1 # f2 # others
        \<and> getDeviceInfo h dp (TrimPrefix f1 ''0000:'') 1
             (w0\<lparr>hst := s,
                 trace := trace w0 @ [EvReadDir (path_Join [pciDriverDir dp, dpdkDriver dp])]\<rparr>)
            = ((info, e), w1)
        \<longrightarrow>
          scan_inventory h dp t w =
            (case e of
               None \<Rightarrow>
                 ((2, fn0 @ [f1, f2], AddDevice t ''generic'' (TrimPrefix f1 ''0000:'') info),
                  emit (EvAddDevice ''generic'' (TrimPrefix f1 ''0000:'') info) w1)
             | Some err \<Rightarrow>
                 ((2, fn0 @ [f1, f2], t), Printf ''Cannot get device info:'' [PErr err] w1))
          \<and> scan h dp t w =
            (case e of
               None \<Rightarrow>
                 ((AddDevice t ''generic'' (TrimPrefix f1 ''0000:'') info, None),
                  emit (EvAddDevice ''generic'' (TrimPrefix f1 ''0000:'') info) w1)
             | Some err \<Rightarrow> ((t, None), Printf ''Cannot get device info:'' [PErr err] w1))
          \<and> added (trace (snd (scan h dp t w))) =
              added (trace w) @
                (case e of None \<Rightarrow> [(TrimPrefix f1 ''0000:'', info)] | Some err \<Rightarrow> []))"
proof (intro conjI impI)
  obtain b fn t1 w1 where sd: "scan_inventory h dp t w = ((b, fn, t1), w1)"
    by (metis prod.exhaust)
  from scan_drivers_log [OF sd [unfolded scan_inventory_def]] sd
  show "int (length (added (trace (snd (scan_inventory h dp t w)))))
          \<le> int (length (added (trace w))) + max 0 (maxDevices dp)"
    by (auto simp: added_append max_def split: if_splits)
  from scan_log [of h dp t w]
  show "int (length (added (trace (snd (scan h dp t w)))))
          \<le> int (length (added (trace w))) + max 0 (maxDevices dp)"
    by (auto simp: added_append)
  show "maxDevices dp \<le> fst (fst (scan_inventory h dp t w)) \<Longrightarrow>
          scan h dp t w =
            (case scan_inventory h dp t w of ((b, fn, t1), w1) \<Rightarrow> ((t1, None), w1))"
    by (auto simp: scan_def split: prod.splits)
next
  assume a: "maxDevices dp = 1 \<and> dpdkDriver dp \<notin> set (kernelVfDrivers dp)
        \<and> scan_drivers h dp (kernelVfDrivers dp) 0 [] t w = ((b0, fn0, t0), w0)
        \<and> ReadDir h (path_Join [pciDriverDir dp, dpdkDriver dp]) (hst w0) = (Inr files, s)
        \<and> filter (\<lambda>f. HasPrefix f ''0000:'') files = f1 # f2 # others
        \<and> getDeviceInfo h dp (TrimPrefix f1 ''0000:'') 1
             (w0\<lparr>hst := s,
                 trace := trace w0 @ [EvReadDir (path_Join [pciDriverDir dp, dpdkDriver dp])]\<rparr>)
            = ((info, e), w1)"
  let ?w = "w0\<lparr>hst := s,
      trace := trace w0 @ [EvReadDir (path_Join [pciDriverDir dp, dpdkDriver dp])]\<rparr>"
  from a have cap: "maxDevices dp = 1" and nk: "dpdkDriver dp \<notin> set (kernelVfDrivers dp)"
    and kernel: "scan_drivers h dp (kernelVfDrivers dp) 0 [] t w = ((b0, fn0, t0), w0)"
    and rd: "ReadDir h (path_Join [pciDriverDir dp, dpdkDriver dp]) (hst w0) = (Inr files, s)"
    and entries: "filter (\<lambda>f. HasPrefix f ''0000:'') files = f1 # f2 # others"
    and g: "getDeviceInfo h dp (TrimPrefix f1 ''0000:'') 1 ?w = ((info, e), w1)"
    by blast+
  from scan_drivers_kernel [OF nk kernel] have k: "b0 = 0" "t0 = t"
    by blast+
  from getDeviceInfo_log [OF g] obtain e1 where e1: "trace w1 = trace ?w @ e1" "added e1 = []"
    by (auto simp: quiet_def)
  from scan_drivers_kernel [OF nk kernel] obtain evs where
    "trace w0 = trace w @ evs"
    "list_all (\<lambda>e. case e of EvReadDir p \<Rightarrow> True | EvPrintf f a \<Rightarrow> True | _ \<Rightarrow> False) evs"
    by blast
  moreover have "added evs = []"
    if "list_all (\<lambda>e. case e of EvReadDir p \<Rightarrow> True | EvPrintf f a \<Rightarrow> True | _ \<Rightarrow> False) evs"
    for evs
    using that by (induction evs rule: added.induct) simp_all
  ultimately have w0: "added (trace w0) = added (trace w)"
    by (simp add: added_append)
  with e1 have w1: "added (trace w1) = added (trace w)"
    by (simp add: added_append)
  have inv: "scan_inventory h dp t w =
      scan_files h dp (dpdkDriver dp) files 0 fn0 t ?w"
    using kernel k rd
    by (simp add: scan_inventory_def scan_drivers_append ioutil_ReadDir_def emit_def
        split: prod.splits)
  with scan_files_cap_one [OF cap entries g, of fn0 t]
  show inventory: "scan_inventory h dp t w =
            (case e of
               None \<Rightarrow>
                 ((2, fn0 @ [f1, f2], AddDevice t ''generic'' (TrimPrefix f1 ''0000:'') info),
                  emit (EvAddDevice ''generic'' (TrimPrefix f1 ''0000:'') info) w1)
             | Some err \<Rightarrow>
                 ((2, fn0 @ [f1, f2], t), Printf ''Cannot get device info:'' [PErr err] w1))"
    by simp
  with cap
  show result: "scan h dp t w =
            (case e of
               None \<Rightarrow>
                 ((AddDevice t ''generic'' (TrimPrefix f1 ''0000:'') info, None),
                  emit (EvAddDevice ''generic'' (TrimPrefix f1 ''0000:'') info) w1)
             | Some err \<Rightarrow> ((t, None), Printf ''Cannot get device info:'' [PErr err] w1))"
    by (cases e) (simp_all add: scan_def)
  with w1
  show "added (trace (snd (scan h dp t w))) =
          added (trace w) @
            (case e of None \<Rightarrow> [(TrimPrefix f1 ''0000:'', info)] | Some err \<Rightarrow> [])"
    by (cases e) (simp_all add: trace_emit Printf_frame added_append)
qed

text \<open>
  The scenario of the claim on a host where every call succeeds: the hypotheses hold and
  the one descriptor is added.
\<close>

theorem scan_respects_cap_witness:
  "maxDevices (plugin 1) = 1 \<and> dpdkDriver (plugin 1) \<notin> set (kernelVfDrivers (plugin 1))
   \<and> ReadDir sim_host (path_Join [pciDriverDir (plugin 1), dpdkDriver (plugin 1)])
        (hst (snd (scan_drivers sim_host (plugin 1) (kernelVfDrivers (plugin 1)) 0 []
           NewDeviceTree (start two_bound_host))))
       = (Inr [''0000:01:00.0'', ''0000:01:00.1'', ''bind'', ''new_id'', ''unbind''], two_bound_host)
   \<and> filter (\<lambda>f. HasPrefix f ''0000:'')
        [''0000:01:00.0'', ''0000:01:00.1'', ''bind'', ''new_id'', ''unbind'']
       = ''0000:01:00.0'' # ''0000:01:00.1'' # []
   \<and> fst (fst (scan_inventory sim_host (plugin 1) NewDeviceTree (start two_bound_host))) = 2
   \<and> added (trace (snd (scan sim_host (plugin 1) NewDeviceTree (start two_bound_host))))
       = [(''01:00.0'',
           \<lparr>State = ''Healthy'', Nodes = [''/dev/vfio/7'', ''/dev/vfio/vfio''], Mounts = [],
            Envs = [(''QAT1'', ''0000:01:00.0'')]\<rparr>)]"
proof -
  let ?K = "scan_drivers sim_host (plugin 1) (kernelVfDrivers (plugin 1)) 0 []
      NewDeviceTree (start two_bound_host)"
  let ?p = "path_Join [pciDriverDir (plugin 1), dpdkDriver (plugin 1)]"
  let ?w = "(snd ?K)\<lparr>hst := two_bound_host, trace := trace (snd ?K) @ [EvReadDir ?p]\<rparr>"
  let ?G = "getDeviceInfo sim_host (plugin 1) (TrimPrefix ''0000:01:00.0'' ''0000:'') 1 ?w"
  have cap: "maxDevices (plugin 1) = 1"
    by code_simp
  have nk: "dpdkDriver (plugin 1) \<notin> set (kernelVfDrivers (plugin 1))"
    by code_simp
  have kernel: "?K = ((fst (fst ?K), fst (snd (fst ?K)), snd (snd (fst ?K))), snd ?K)"
    by simp
  have rd: "ReadDir sim_host ?p (hst (snd ?K))
      = (Inr [''0000:01:00.0'', ''0000:01:00.1'', ''bind'', ''new_id'', ''unbind''], two_bound_host)"
    by code_simp
  have entries: "filter (\<lambda>f. HasPrefix f ''0000:'')
      [''0000:01:00.0'', ''0000:01:00.1'', ''bind'', ''new_id'', ''unbind'']
      = ''0000:01:00.0'' # ''0000:01:00.1'' # []"
    by code_simp
  have g: "?G = ((fst (fst ?G), snd (fst ?G)), snd ?G)"
    by simp
  have ok: "snd (fst ?G) = None"
    by code_simp
  have d: "fst (fst ?G) = \<lparr>State = ''Healthy'', Nodes = [''/dev/vfio/7'', ''/dev/vfio/vfio''],
      Mounts = [], Envs = [(''QAT1'', ''0000:01:00.0'')]\<rparr>"
    by code_simp
  have a: "TrimPrefix ''0000:01:00.0'' ''0000:'' = ''01:00.0''"
    by code_simp
  have none: "added (trace (start two_bound_host)) = []"
    by (simp add: start_def)
  from scan_respects_cap [where h = sim_host and dp = "plugin 1" and t = NewDeviceTree
      and w = "start two_bound_host" and ?b0.0 = "fst (fst ?K)" and ?fn0.0 = "fst (snd (fst ?K))"
      and ?t0.0 = "snd (snd (fst ?K))" and ?w0.0 = "snd ?K"
      and files = "[''0000:01:00.0'', ''0000:01:00.1'', ''bind'', ''new_id'', ''unbind'']"
      and s = two_bound_host and ?f1.0 = "''0000:01:00.0''" and ?f2.0 = "''0000:01:00.1''"
      and others = "[]" and info = "fst (fst ?G)" and e = "snd (fst ?G)" and ?w1.0 = "snd ?G"]
    cap nk kernel rd entries g
  have "scan_inventory sim_host (plugin 1) NewDeviceTree (start two_bound_host) =
            (case snd (fst ?G) of
               None \<Rightarrow>
                 ((2, fst (snd (fst ?K)) @ [''0000:01:00.0'', ''0000:01:00.1''],
                   AddDevice NewDeviceTree ''generic'' (TrimPrefix ''0000:01:00.0'' ''0000:'')
                     (fst (fst ?G))),
                  emit (EvAddDevice ''generic'' (TrimPrefix ''0000:01:00.0'' ''0000:'')
                     (fst (fst ?G))) (snd ?G))
             | Some err \<Rightarrow>
                 ((2, fst (snd (fst ?K)) @ [''0000:01:00.0'', ''0000:01:00.1''], NewDeviceTree),
                  Printf ''Cannot get device info:'' [PErr err] (snd ?G)))"
    and "added (trace (snd (scan sim_host (plugin 1) NewDeviceTree (start two_bound_host)))) =
              added (trace (start two_bound_host)) @
                (case snd (fst ?G) of None \<Rightarrow> [(TrimPrefix ''0000:01:00.0'' ''0000:'', fst (fst ?G))]
                 | Some err \<Rightarrow> [])"
    by blast+
  with ok d a none cap nk rd entries show ?thesis
    by simp
qed

text \<open>
  The claim's scenario on a host where the IOMMU group of the first VF cannot be
  resolved: cap 1, two VFs with a known ID under the DPDK driver, and the cycle adds
  no descriptor.
\<close>

theorem two_bound_none_added:
  "maxDevices (plugin 1) = 1
   \<and> fst (ReadDir sim_host ''/sys/bus/pci/drivers/vfio-pci'' unresolved_host)
       = Inr [''0000:01:00.0'', ''0000:01:00.1'', ''bind'', ''new_id'', ''unbind'']
   \<and> fst (getDeviceID sim_host (plugin 1) ''0000:01:00.0'' (start unresolved_host)) = Inr ''37c9''
   \<and> fst (getDeviceID sim_host (plugin 1) ''0000:01:00.1'' (start unresolved_host)) = Inr ''37c9''
   \<and> isValidVfDeviceID ''37c9''
   \<and> added (trace (snd (scan_inventory sim_host (plugin 1) NewDeviceTree (start unresolved_host))))
       = []
   \<and> scan sim_host (plugin 1) NewDeviceTree (start unresolved_host)
       = (case scan_inventory sim_host (plugin 1) NewDeviceTree (start unresolved_host) of
            ((b, fn, t1), w1) \<Rightarrow> ((t1, None), w1))
   \<and> fst (scan sim_host (plugin 1) NewDeviceTree (start unresolved_host)) = ([], None)"
  by code_simp

section \<open>The snapshot from cycle to cycle\<close>

text \<open>
  C4, as the code has it. The tree is created once, before the loop. The scan of a
  cycle returns the tree it was given with the \<open>AddDevice\<close> calls of that cycle applied in
  order, so for every address the cycle adds no descriptor for, the snapshot holds what
  the given tree held; and the loop of \<open>Scan\<close> hands that tree to the notifier and gives
  the same tree to the scan of the next iteration. A cycle's snapshot thus holds the
  descriptors constructed during the cycle and every descriptor of the earlier cycles
  whose address the cycle does not add again.
\<close>

theorem snapshot_accumulates:
  "(\<exists>evs. trace (snd (scan h dp devTree w)) = trace w @ evs
       \<and> fst (fst (scan h dp devTree w)) = replay devTree (added evs)
       \<and> (\<forall>ident. ident \<notin> fst ` set (added evs) \<longrightarrow>
             descriptor (fst (fst (scan h dp devTree w))) ident = descriptor devTree ident))
   \<and> Scan_step h dp devTree w =
       Inr (fst (fst (scan h dp devTree w)),
            (snd (scan h dp devTree w))
              \<lparr>hst := Sleep h 5000000000 (hst (snd (scan h dp devTree w))),
               trace := trace (snd (scan h dp devTree w))
                  @ [EvNotify (fst (fst (scan h dp devTree w))), EvSleep 5000000000]\<rparr>)
   \<and> Scan_iterations (Suc k) h dp devTree w =
       Scan_iterations k h dp (fst (fst (scan h dp devTree w)))
         ((snd (scan h dp devTree w))
              \<lparr>hst := Sleep h 5000000000 (hst (snd (scan h dp devTree w))),
               trace := trace (snd (scan h dp devTree w))
                  @ [EvNotify (fst (fst (scan h dp devTree w))), EvSleep 5000000000]\<rparr>)
   \<and> Scan h dp w = Scan_loop h dp NewDeviceTree w"
proof (intro conjI)
  from scan_log [of h dp devTree w] obtain evs where
    evs: "trace (snd (scan h dp devTree w)) = trace w @ evs"
      "fst (fst (scan h dp devTree w)) = replay devTree (added evs)"
    by blast
  then have "\<forall>ident. ident \<notin> fst ` set (added evs) \<longrightarrow>
      descriptor (fst (fst (scan h dp devTree w))) ident = descriptor devTree ident"
    by (simp add: descriptor_replay)
  with evs show "\<exists>evs. trace (snd (scan h dp devTree w)) = trace w @ evs
       \<and> fst (fst (scan h dp devTree w)) = replay devTree (added evs)
       \<and> (\<forall>ident. ident \<notin> fst ` set (added evs) \<longrightarrow>
             descriptor (fst (fst (scan h dp devTree w))) ident = descriptor devTree ident)"
    by blast
  show step: "Scan_step h dp devTree w =
       Inr (fst (fst (scan h dp devTree w)),
            (snd (scan h dp devTree w))
              \<lparr>hst := Sleep h 5000000000 (hst (snd (scan h dp devTree w))),
               trace := trace (snd (scan h dp devTree w))
                  @ [EvNotify (fst (fst (scan h dp devTree w))), EvSleep 5000000000]\<rparr>)"
    by (simp add: Scan_step_runs time_Sleep_def notifier_Notify_def emit_def time_Second_def)
  then show "Scan_iterations (Suc k) h dp devTree w =
       Scan_iterations k h dp (fst (fst (scan h dp devTree w)))
         ((snd (scan h dp devTree w))
              \<lparr>hst := Sleep h 5000000000 (hst (snd (scan h dp devTree w))),
               trace := trace (snd (scan h dp devTree w))
                  @ [EvNotify (fst (fst (scan h dp devTree w))), EvSleep 5000000000]\<rparr>)"
    by simp
  show "Scan h dp w = Scan_loop h dp NewDeviceTree w"
    by (simp add: Scan_def)
qed

text \<open>
  A VF under the DPDK driver is described in the first cycle and removed from the host
  during the sleep: the second cycle finds no device and adds no descriptor, and its
  snapshot still holds the descriptor of the first cycle.
\<close>

theorem snapshot_accumulates_witness:
  "added (trace (snd (Scan_iterations 1 sim_host (plugin 1) NewDeviceTree (start unplug_host))))
     = added (trace (snd (scan sim_host (plugin 1)
         [(''generic'',
           [(''01:00.0'',
             \<lparr>State = ''Healthy'', Nodes = [''/dev/vfio/7'', ''/dev/vfio/vfio''], Mounts = [],
              Envs = [(''QAT1'', ''0000:01:00.0'')]\<rparr>)])]
         (snd (Scan_iterations 1 sim_host (plugin 1) NewDeviceTree (start unplug_host))))))
   \<and> descriptor (fst (fst (scan sim_host (plugin 1)
         [(''generic'',
           [(''01:00.0'',
             \<lparr>State = ''Healthy'', Nodes = [''/dev/vfio/7'', ''/dev/vfio/vfio''], Mounts = [],
              Envs = [(''QAT1'', ''0000:01:00.0'')]\<rparr>)])]
         (snd (Scan_iterations 1 sim_host (plugin 1) NewDeviceTree (start unplug_host))))))
       ''01:00.0''
     = Some \<lparr>State = ''Healthy'', Nodes = [''/dev/vfio/7'', ''/dev/vfio/vfio''], Mounts = [],
             Envs = [(''QAT1'', ''0000:01:00.0'')]\<rparr>"
proof -
  let ?T = "[(''generic'',
           [(''01:00.0'',
             \<lparr>State = ''Healthy'', Nodes = [''/dev/vfio/7'', ''/dev/vfio/vfio''], Mounts = [],
              Envs = [(''QAT1'', ''0000:01:00.0'')]\<rparr>)])]"
  let ?w = "snd (Scan_iterations 1 sim_host (plugin 1) NewDeviceTree (start unplug_host))"
  have same: "added (trace ?w) = added (trace (snd (scan sim_host (plugin 1) ?T ?w)))"
    by code_simp
  have held: "descriptor ?T ''01:00.0''
      = Some \<lparr>State = ''Healthy'', Nodes = [''/dev/vfio/7'', ''/dev/vfio/vfio''], Mounts = [],
             Envs = [(''QAT1'', ''0000:01:00.0'')]\<rparr>"
    by code_simp
  from snapshot_accumulates [of sim_host "plugin 1" ?T ?w] obtain evs where
    evs: "trace (snd (scan sim_host (plugin 1) ?T ?w)) = trace ?w @ evs"
    and keep: "\<forall>ident. ident \<notin> fst ` set (added evs) \<longrightarrow>
        descriptor (fst (fst (scan sim_host (plugin 1) ?T ?w))) ident = descriptor ?T ident"
    by blast
  from same evs have "added evs = []"
    by (simp add: added_append)
  with keep held same show ?thesis
    by simp
qed

theorem earlier_descriptor_retained:
  "fst (Scan_iterations 2 sim_host (plugin 1) NewDeviceTree (start unplug_host))
     = Inr [(''generic'',
             [(''01:00.0'',
               \<lparr>State = ''Healthy'', Nodes = [''/dev/vfio/7'', ''/dev/vfio/vfio''], Mounts = [],
                Envs = [(''QAT1'', ''0000:01:00.0'')]\<rparr>)])]
   \<and> notified (trace (snd (Scan_iterations 2 sim_host (plugin 1) NewDeviceTree (start unplug_host))))
     = [[(''generic'',
          [(''01:00.0'',
            \<lparr>State = ''Healthy'', Nodes = [''/dev/vfio/7'', ''/dev/vfio/vfio''], Mounts = [],
             Envs = [(''QAT1'', ''0000:01:00.0'')]\<rparr>)])],
        [(''generic'',
          [(''01:00.0'',
            \<lparr>State = ''Healthy'', Nodes = [''/dev/vfio/7'', ''/dev/vfio/vfio''], Mounts = [],
             Envs = [(''QAT1'', ''0000:01:00.0'')]\<rparr>)])]]
   \<and> length (added (trace (snd (Scan_iterations 1 sim_host (plugin 1) NewDeviceTree
         (start unplug_host))))) = 1
   \<and> length (added (trace (snd (Scan_iterations 2 sim_host (plugin 1) NewDeviceTree
         (start unplug_host))))) = 1
   \<and> fst (ReadDir sim_host ''/sys/bus/pci/drivers/vfio-pci''
         (hst (snd (Scan_iterations 1 sim_host (plugin 1) NewDeviceTree (start unplug_host)))))
     = Inr [''bind'', ''new_id'', ''unbind'']"
  by code_simp

section \<open>Failures of the rebinding\<close>

text \<open>
  C6, as the code has it. In \<open>bindDevice\<close>, when the write to the device's \<open>driver/unbind\<close>
  fails, the error returned is that error wrapped with the device address, and the
  failed write is the only host call made: the write to \<open>new_id\<close> is not attempted. When
  the unbind write succeeds, the device ID is read again and the write to \<open>new_id\<close>
  fails, the error returned is that error wrapped with the device address, and the
  host is left as the failed write left it: nothing is done to bring the device back to
  its kernel driver. An error of \<open>bindDevice\<close> is the error of \<open>getDeviceInfo\<close>, with the
  zero descriptor, and both loops of \<open>scan\<close>, at an entry for which \<open>getDeviceInfo\<close>
  returns an error, log it and go on to the next entry with the tree unchanged: that
  attempt adds no descriptor.
\<close>

theorem rebind_failures:
  "(WriteFile h (path_Join [pciDeviceDir dp, ''0000:'' @ ident, driverUnbindSuffix])
        (''0000:'' @ ident) (hst w) = (Some err, s)
      \<longrightarrow> bindDevice h dp ident w =
            (Some (Wrap err (''Unbinding from kernel driver failed for the device '' @ ident)),
             w\<lparr>hst := s,
               trace := trace w @
                 [EvWriteFile (path_Join [pciDeviceDir dp, ''0000:'' @ ident, driverUnbindSuffix])
                    (''0000:'' @ ident)]\<rparr>))
   \<and> (WriteFile h (path_Join [pciDeviceDir dp, ''0000:'' @ ident, driverUnbindSuffix])
        (''0000:'' @ ident) (hst w) = (None, s1)
      \<and> ReadFile h (path_Join [pciDeviceDir dp, ''0000:'' @ ident, ''device'']) s1 = (Inr devID, s2)
      \<and> WriteFile h (path_Join [pciDriverDir dp, dpdkDriver dp, newIDSuffix])
            (vendorPrefix @ TrimPrefix (TrimSpace devID) ''0x'') s2 = (Some err, s3)
      \<longrightarrow> bindDevice h dp ident w =
            (Some (Wrap err (''Binding to the DPDK driver failed for the device '' @ ident)),
             w\<lparr>hst := s3,
               trace := trace w @
                 [EvWriteFile (path_Join [pciDeviceDir dp, ''0000:'' @ ident, driverUnbindSuffix])
                    (''0000:'' @ ident),
                  EvReadFile (path_Join [pciDeviceDir dp, ''0000:'' @ ident, ''device'']),
                  EvWriteFile (path_Join [pciDriverDir dp, dpdkDriver dp, newIDSuffix])
                    (vendorPrefix @ TrimPrefix (TrimSpace devID) ''0x'')]\<rparr>))
   \<and> (getDeviceID h dp (''0000:'' @ ident) w0 = (Inr vfdevID, w) \<and> isValidVfDeviceID vfdevID
      \<and> bindDevice h dp ident w = (Some err', w')
      \<longrightarrow> getDeviceInfo h dp ident counter w0 = ((emptyDeviceInfo, Some err'), w'))
   \<and> (getDeviceInfo h dp (TrimPrefix file' ''0000:'') (dpdkDriverBound + 1) w0
          = ((info, Some err'), w')
      \<and> HasPrefix file' ''0000:'' \<and> dpdkDriverBound + 1 \<le> maxDevices dp
      \<longrightarrow> scan_files h dp (dpdkDriver dp) (file' # files) dpdkDriverBound filesNew devTree w0
          = scan_files h dp (dpdkDriver dp) files (dpdkDriverBound + 1) (filesNew @ [file']) devTree
              (w'\<lparr>trace := trace w' @ [EvPrintf ''Cannot get device info:'' [PErr err']]\<rparr>))
   \<and> (getDeviceInfo h dp (TrimPrefix file' ''0000:'') dpdkDriverBound w0 = ((info, Some err'), w')
      \<and> n + 1 \<le> devicesNeeded
      \<longrightarrow> scan_rebind h dp devicesNeeded dpdkDriverBound (file' # files) n devTree w0
          = scan_rebind h dp devicesNeeded dpdkDriverBound files (n + 1) devTree
              (w'\<lparr>trace := trace w' @ [EvPrintf ''Cannot get device info:'' [PErr err']]\<rparr>))"
proof (intro conjI impI)
  show "bindDevice h dp ident w =
            (Some (Wrap err (''Unbinding from kernel driver failed for the device '' @ ident)),
             w\<lparr>hst := s,
               trace := trace w @
                 [EvWriteFile (path_Join [pciDeviceDir dp, ''0000:'' @ ident, driverUnbindSuffix])
                    (''0000:'' @ ident)]\<rparr>)"
    if "WriteFile h (path_Join [pciDeviceDir dp, ''0000:'' @ ident, driverUnbindSuffix])
        (''0000:'' @ ident) (hst w) = (Some err, s)"
    using that by (simp add: bindDevice_def Let_def ioutil_WriteFile_def emit_def)
  show "bindDevice h dp ident w =
            (Some (Wrap err (''Binding to the DPDK driver failed for the device '' @ ident)),
             w\<lparr>hst := s3,
               trace := trace w @
                 [EvWriteFile (path_Join [pciDeviceDir dp, ''0000:'' @ ident, driverUnbindSuffix])
                    (''0000:'' @ ident),
                  EvReadFile (path_Join [pciDeviceDir dp, ''0000:'' @ ident, ''device'']),
                  EvWriteFile (path_Join [pciDriverDir dp, dpdkDriver dp, newIDSuffix])
                    (vendorPrefix @ TrimPrefix (TrimSpace devID) ''0x'')]\<rparr>)"
    if "WriteFile h (path_Join [pciDeviceDir dp, ''0000:'' @ ident, driverUnbindSuffix])
        (''0000:'' @ ident) (hst w) = (None, s1)
      \<and> ReadFile h (path_Join [pciDeviceDir dp, ''0000:'' @ ident, ''device'']) s1 = (Inr devID, s2)
      \<and> WriteFile h (path_Join [pciDriverDir dp, dpdkDriver dp, newIDSuffix])
            (vendorPrefix @ TrimPrefix (TrimSpace devID) ''0x'') s2 = (Some err, s3)"
    using that
    by (simp add: bindDevice_def Let_def getDeviceID_def ioutil_WriteFile_def ioutil_ReadFile_def
        emit_def)
  show "getDeviceInfo h dp ident counter w0 = ((emptyDeviceInfo, Some err'), w')"
    if "getDeviceID h dp (''0000:'' @ ident) w0 = (Inr vfdevID, w) \<and> isValidVfDeviceID vfdevID
      \<and> bindDevice h dp ident w = (Some err', w')"
    using that by (simp add: getDeviceInfo_def Let_def)
  show "scan_files h dp (dpdkDriver dp) (file' # files) dpdkDriverBound filesNew devTree w0
          = scan_files h dp (dpdkDriver dp) files (dpdkDriverBound + 1) (filesNew @ [file']) devTree
              (w'\<lparr>trace := trace w' @ [EvPrintf ''Cannot get device info:'' [PErr err']]\<rparr>)"
    if "getDeviceInfo h dp (TrimPrefix file' ''0000:'') (dpdkDriverBound + 1) w0
          = ((info, Some err'), w')
      \<and> HasPrefix file' ''0000:'' \<and> dpdkDriverBound + 1 \<le> maxDevices dp"
    using that by (simp add: Printf_def emit_def)
  show "scan_rebind h dp devicesNeeded dpdkDriverBound (file' # files) n devTree w0
          = scan_rebind h dp devicesNeeded dpdkDriverBound files (n + 1) devTree
              (w'\<lparr>trace := trace w' @ [EvPrintf ''Cannot get device info:'' [PErr err']]\<rparr>)"
    if "getDeviceInfo h dp (TrimPrefix file' ''0000:'') dpdkDriverBound w0 = ((info, Some err'), w')
      \<and> n + 1 \<le> devicesNeeded"
    using that by (simp add: Printf_def emit_def)
qed

text \<open>
  The failures on the simulated host: a kernel-bound VF whose unbind write is refused,
  the same VF with the write to \<open>new_id\<close> refused, and the entries of both loops at which
  the call fails.
\<close>

theorem rebind_failures_witness:
  "WriteFile sim_host (path_Join [pciDeviceDir (plugin 32), ''0000:'' @ ''01:00.0'', driverUnbindSuffix])
       (''0000:'' @ ''01:00.0'')
       (hst (start (refusing ''/sys/bus/pci/devices/0000:01:00.0/driver/unbind'')))
     = (Some (HostError ''permission denied''),
        refusing ''/sys/bus/pci/devices/0000:01:00.0/driver/unbind'')
   \<and> fst (bindDevice sim_host (plugin 32) ''01:00.0''
          (start (refusing ''/sys/bus/pci/devices/0000:01:00.0/driver/unbind'')))
     = Some (Wrap (HostError ''permission denied'')
          ''Unbinding from kernel driver failed for the device 01:00.0'')
   \<and> written (trace (snd (bindDevice sim_host (plugin 32) ''01:00.0''
          (start (refusing ''/sys/bus/pci/devices/0000:01:00.0/driver/unbind'')))))
     = [(''/sys/bus/pci/devices/0000:01:00.0/driver/unbind'', ''0000:01:00.0'')]
   \<and> fst (WriteFile sim_host
          (path_Join [pciDeviceDir (plugin 32), ''0000:'' @ ''01:00.0'', driverUnbindSuffix])
          (''0000:'' @ ''01:00.0'') (hst (start (refusing ''/sys/bus/pci/drivers/vfio-pci/new_id''))))
     = None
   \<and> fst (bindDevice sim_host (plugin 32) ''01:00.0''
          (start (refusing ''/sys/bus/pci/drivers/vfio-pci/new_id'')))
     = Some (Wrap (HostError ''permission denied'')
          ''Binding to the DPDK driver failed for the device 01:00.0'')
   \<and> fst (getDeviceInfo sim_host (plugin 32) ''01:00.0'' 0
          (start (refusing ''/sys/bus/pci/drivers/vfio-pci/new_id'')))
     = (emptyDeviceInfo,
        Some (Wrap (HostError ''permission denied'')
          ''Binding to the DPDK driver failed for the device 01:00.0''))
   \<and> fst (scan_rebind sim_host (plugin 32) 32 0 [''0000:01:00.0''] 0 NewDeviceTree
          (start (refusing ''/sys/bus/pci/drivers/vfio-pci/new_id''))) = NewDeviceTree
   \<and> fst (scan_files sim_host (plugin 32) (dpdkDriver (plugin 32)) [''0000:01:00.0''] 0 []
          NewDeviceTree (start (refusing ''/sys/bus/pci/drivers/vfio-pci/new_id'')))
     = (1, [''0000:01:00.0''], NewDeviceTree)"
proof -
  let ?U = "refusing ''/sys/bus/pci/devices/0000:01:00.0/driver/unbind''"
  let ?B = "refusing ''/sys/bus/pci/drivers/vfio-pci/new_id''"
  let ?unbind = "path_Join [pciDeviceDir (plugin 32), ''0000:'' @ ''01:00.0'', driverUnbindSuffix]"
  let ?device = "path_Join [pciDeviceDir (plugin 32), ''0000:'' @ ''01:00.0'', ''device'']"
  let ?new_id = "path_Join [pciDriverDir (plugin 32), dpdkDriver (plugin 32), newIDSuffix]"
  let ?s1 = "snd (WriteFile sim_host ?unbind (''0000:'' @ ''01:00.0'') (hst (start ?B)))"
  let ?err = "HostError ''permission denied''"
  let ?berr = "Wrap ?err (''Binding to the DPDK driver failed for the device '' @ ''01:00.0'')"
  let ?w = "snd (getDeviceID sim_host (plugin 32) (''0000:'' @ ''01:00.0'') (start ?B))"
  let ?w' = "snd (bindDevice sim_host (plugin 32) ''01:00.0'' ?w)"
  let ?g = "snd (getDeviceInfo sim_host (plugin 32) (TrimPrefix ''0000:01:00.0'' ''0000:'') 0
      (start ?B))"
  let ?g1 = "snd (getDeviceInfo sim_host (plugin 32) (TrimPrefix ''0000:01:00.0'' ''0000:'') (0 + 1)
      (start ?B))"
  have u: "WriteFile sim_host ?unbind (''0000:'' @ ''01:00.0'') (hst (start ?U)) = (Some ?err, ?U)"
    by code_simp
  have b: "WriteFile sim_host ?unbind (''0000:'' @ ''01:00.0'') (hst (start ?B)) = (None, ?s1)
      \<and> ReadFile sim_host ?device ?s1 = (Inr ''0x37c9\<newline>'', ?s1)
      \<and> WriteFile sim_host ?new_id (vendorPrefix @ TrimPrefix (TrimSpace ''0x37c9\<newline>'') ''0x'') ?s1
          = (Some ?err, ?s1)"
    by code_simp
  have i: "getDeviceID sim_host (plugin 32) (''0000:'' @ ''01:00.0'') (start ?B) = (Inr ''37c9'', ?w)
      \<and> isValidVfDeviceID ''37c9''
      \<and> bindDevice sim_host (plugin 32) ''01:00.0'' ?w = (Some ?berr, ?w')"
    by code_simp
  have r: "getDeviceInfo sim_host (plugin 32) (TrimPrefix ''0000:01:00.0'' ''0000:'') 0 (start ?B)
        = ((emptyDeviceInfo, Some ?berr), ?g)
      \<and> (0::int) + 1 \<le> 32"
    by code_simp
  have f: "getDeviceInfo sim_host (plugin 32) (TrimPrefix ''0000:01:00.0'' ''0000:'') (0 + 1)
          (start ?B) = ((emptyDeviceInfo, Some ?berr), ?g1)
      \<and> HasPrefix ''0000:01:00.0'' ''0000:'' \<and> (0::int) + 1 \<le> maxDevices (plugin 32)"
    by code_simp
  note inst = rebind_failures [where h = sim_host and dp = "plugin 32" and ident = "''01:00.0''"]
  from inst [where w = "start ?U" and err = ?err and s = ?U] u
  have c1: "bindDevice sim_host (plugin 32) ''01:00.0'' (start ?U) =
      (Some (Wrap ?err (''Unbinding from kernel driver failed for the device '' @ ''01:00.0'')),
       (start ?U)\<lparr>hst := ?U,
          trace := trace (start ?U) @ [EvWriteFile ?unbind (''0000:'' @ ''01:00.0'')]\<rparr>)"
    by blast
  from inst [where w = "start ?B" and ?s1.0 = ?s1 and devID = "''0x37c9\<newline>''" and ?s2.0 = ?s1
      and err = ?err and ?s3.0 = ?s1] b
  have c2: "fst (bindDevice sim_host (plugin 32) ''01:00.0'' (start ?B)) = Some ?berr"
    by simp
  from inst [where ?w0.0 = "start ?B" and vfdevID = "''37c9''" and w = ?w and err' = ?berr
      and w' = ?w' and counter = 0] i
  have c3: "fst (getDeviceInfo sim_host (plugin 32) ''01:00.0'' 0 (start ?B))
      = (emptyDeviceInfo, Some ?berr)"
    by simp
  from inst [where file' = "''0000:01:00.0''" and dpdkDriverBound = 0 and ?w0.0 = "start ?B"
      and info = emptyDeviceInfo and err' = ?berr and w' = ?g and n = 0 and devicesNeeded = 32
      and files = "[]" and devTree = NewDeviceTree] r
  have c4: "fst (scan_rebind sim_host (plugin 32) 32 0 [''0000:01:00.0''] 0 NewDeviceTree (start ?B))
      = NewDeviceTree"
    by simp
  from inst [where file' = "''0000:01:00.0''" and dpdkDriverBound = 0 and ?w0.0 = "start ?B"
      and info = emptyDeviceInfo and err' = ?berr and w' = ?g1 and files = "[]"
      and filesNew = "[]" and devTree = NewDeviceTree] f
  have c5: "fst (scan_files sim_host (plugin 32) (dpdkDriver (plugin 32)) [''0000:01:00.0''] 0 []
      NewDeviceTree (start ?B)) = (1, [''0000:01:00.0''], NewDeviceTree)"
    by simp
  have p: "path_Join [pciDeviceDir (plugin 32), ''0000:01:00.0'', driverUnbindSuffix]
      = ''/sys/bus/pci/devices/0000:01:00.0/driver/unbind''"
    by code_simp
  have b1: "fst (WriteFile sim_host ?unbind (''0000:'' @ ''01:00.0'') (hst (start ?B))) = None"
    by code_simp
  from c1 have c1a: "fst (bindDevice sim_host (plugin 32) ''01:00.0'' (start ?U))
      = Some (Wrap ?err ''Unbinding from kernel driver failed for the device 01:00.0'')"
    and c1b: "written (trace (snd (bindDevice sim_host (plugin 32) ''01:00.0'' (start ?U))))
      = [(''/sys/bus/pci/devices/0000:01:00.0/driver/unbind'', ''0000:01:00.0'')]"
    by (simp_all add: p start_def)
  from u b1 c1a c1b c2 c3 c4 c5 show ?thesis
    by simp
qed

text \<open>
  The claim at a kernel-bound VF whose unbind write succeeds and whose write to \<open>new_id\<close>
  is refused: the scan adds no descriptor, and after it the VF is no longer listed
  under its kernel driver.
\<close>

theorem unbound_device_not_restored:
  "fst (ReadDir sim_host ''/sys/bus/pci/drivers/c6xxvf''
         (refusing ''/sys/bus/pci/drivers/vfio-pci/new_id''))
     = Inr [''0000:01:00.0'', ''bind'', ''new_id'', ''unbind'']
   \<and> fst (WriteFile sim_host ''/sys/bus/pci/devices/0000:01:00.0/driver/unbind'' ''0000:01:00.0''
         (refusing ''/sys/bus/pci/drivers/vfio-pci/new_id'')) = None
   \<and> fst (getDeviceInfo sim_host (plugin 32) ''01:00.0'' 0
         (start (refusing ''/sys/bus/pci/drivers/vfio-pci/new_id'')))
     = (emptyDeviceInfo,
        Some (Wrap (HostError ''permission denied'')
          ''Binding to the DPDK driver failed for the device 01:00.0''))
   \<and> written (trace (snd (scan sim_host (plugin 32) NewDeviceTree
         (start (refusing ''/sys/bus/pci/drivers/vfio-pci/new_id'')))))
     = [(''/sys/bus/pci/devices/0000:01:00.0/driver/unbind'', ''0000:01:00.0''),
        (''/sys/bus/pci/drivers/vfio-pci/new_id'', ''8086 37c9'')]
   \<and> fst (scan sim_host (plugin 32) NewDeviceTree
         (start (refusing ''/sys/bus/pci/drivers/vfio-pci/new_id''))) = ([], None)
   \<and> fst (ReadDir sim_host ''/sys/bus/pci/drivers/c6xxvf''
         (hst (snd (scan sim_host (plugin 32) NewDeviceTree
            (start (refusing ''/sys/bus/pci/drivers/vfio-pci/new_id''))))))
     = Inr [''bind'', ''new_id'', ''unbind'']"
  by code_simp

section \<open>The ordinal of a rebound device\<close>


section \<open>A driver whose directory is absent\<close>

text \<open>
  C8. Let \<open>driver\<close> be any of the configured drivers (the kernel VF drivers followed by
  the DPDK driver), \<open>pre\<close> the drivers before it and \<open>post\<close> the ones after it, and let
  the read of its directory fail when the scan of a cycle comes to it. Then the first
  loop of that scan goes on with the drivers of \<open>post\<close> with the counter, the collected
  entries and the tree as the drivers of \<open>pre\<close> left them, as for a driver without
  devices; the log of the scan holds the read followed by the \<open>Skipping\<close> message for
  that driver; the scan returns no error; and the iteration of the loop of \<open>Scan\<close> ends
  with the notification and the sleep and is followed by the next iteration, so the
  loop does not return.
\<close>

theorem missing_driver_directory_is_skipped:
  assumes cfg: "kernelVfDrivers dp @ [dpdkDriver dp] = pre @ driver # post"
    and before: "scan_drivers h dp pre 0 [] devTree w = ((dpdkDriverBound, filesNew, devTree1), w1)"
    and absent: "ReadDir h (path_Join [pciDriverDir dp, driver]) (hst w1) = (Inl err, s)"
  shows "scan_inventory h dp devTree w
           = scan_drivers h dp post dpdkDriverBound filesNew devTree1
               (w1\<lparr>hst := s,
                   trace := trace w1 @
                     [EvReadDir (path_Join [pciDriverDir dp, driver]),
                      EvPrintf ''Can't read sysfs for driver as Driver %s is not available: Skipping\<newline>''
                        [PStr driver]]\<rparr>)
         \<and> (\<exists>evs1 evs2. trace (snd (scan h dp devTree w))
               = trace w @ evs1 @
                   [EvReadDir (path_Join [pciDriverDir dp, driver]),
                    EvPrintf ''Can't read sysfs for driver as Driver %s is not available: Skipping\<newline>''
                      [PStr driver]] @ evs2)
         \<and> snd (fst (scan h dp devTree w)) = None
         \<and> (\<exists>devTree' w' evs1 evs2.
               Scan_step h dp devTree w = Inr (devTree', w')
               \<and> trace w' = trace w @ evs1 @
                   [EvReadDir (path_Join [pciDriverDir dp, driver]),
                    EvPrintf ''Can't read sysfs for driver as Driver %s is not available: Skipping\<newline>''
                      [PStr driver]] @ evs2 @ [EvNotify devTree', EvSleep 5000000000]
               \<and> Scan_iterations (Suc k) h dp devTree w = Scan_iterations k h dp devTree' w')
         \<and> Scan_loop h dp devTree w = None"
proof -
  let ?skip = "[EvReadDir (path_Join [pciDriverDir dp, driver]),
                EvPrintf ''Can't read sysfs for driver as Driver %s is not available: Skipping\<newline>''
                  [PStr driver]]"
  let ?w = "w1\<lparr>hst := s, trace := trace w1 @ ?skip\<rparr>"
  have inv: "scan_inventory h dp devTree w
      = scan_drivers h dp post dpdkDriverBound filesNew devTree1 ?w"
    by (simp add: scan_inventory_def cfg scan_drivers_append before ioutil_ReadDir_def absent
        Printf_def emit_def)
  from scan_drivers_log [OF before] obtain e1 where e1: "trace w1 = trace w @ e1"
    by blast
  obtain b' fn' t' w2 where
    rest: "scan_drivers h dp post dpdkDriverBound filesNew devTree1 ?w = ((b', fn', t'), w2)"
    by (metis prod.exhaust)
  from scan_drivers_log [OF rest] obtain e2 where "trace w2 = trace ?w @ e2"
    by blast
  with e1 have w2: "trace w2 = trace w @ e1 @ ?skip @ e2"
    by simp
  have log: "\<exists>evs2. trace (snd (scan h dp devTree w)) = trace w @ e1 @ ?skip @ evs2"
  proof (rule scan_cases [of h dp devTree w])
    fix b fn t1 w1' t2 w3
    assume "scan_inventory h dp devTree w = ((b, fn, t1), w1')"
      and sr: "scan_rebind h dp (maxDevices dp - b) b fn 0 t1 w1' = (t2, w3)"
      and sc: "scan h dp devTree w = ((t2, None), w3)"
    with inv rest have "w1' = w2" by simp
    with scan_rebind_log [OF sr] obtain e3 where "trace w3 = trace w2 @ e3"
      by blast
    with w2 sc show ?thesis by simp
  next
    fix b fn t1 w1'
    assume "scan_inventory h dp devTree w = ((b, fn, t1), w1')"
      and sc: "scan h dp devTree w = ((t1, None), w1')"
    with inv rest have "w1' = w2" by simp
    with w2 sc show ?thesis by simp
  qed
  then obtain evs2 where
    evs2: "trace (snd (scan h dp devTree w)) = trace w @ e1 @ ?skip @ evs2"
    by blast
  let ?t = "fst (fst (scan h dp devTree w))"
  let ?w' = "time_Sleep h (5 * time_Second) (notifier_Notify ?t (snd (scan h dp devTree w)))"
  have step: "Scan_step h dp devTree w = Inr (?t, ?w')"
    by (rule Scan_step_runs)
  from evs2 have tr: "trace ?w' = trace w @ e1 @ ?skip @ evs2 @ [EvNotify ?t, EvSleep 5000000000]"
    by (simp add: Scan_step_trace time_Second_def)
  from step have it: "Scan_iterations (Suc k) h dp devTree w = Scan_iterations k h dp ?t ?w'"
    by simp
  from inv evs2 step tr it show ?thesis
    by (intro conjI) (blast | rule scan_no_error | rule Scan_loop_None)+
qed

theorem missing_driver_directory_is_skipped_witness:
  "kernelVfDrivers (plugin 1) @ [dpdkDriver (plugin 1)]
     = [''dh895xccvf''] @ ''c6xxvf'' # [''c3xxxvf'', ''d15xxvf'', ''vfio-pci'']
   \<and> scan_drivers sim_host (plugin 1) [''dh895xccvf''] 0 [] NewDeviceTree (start c6xxvf_absent_host)
       = ((0, [], []),
          \<lparr>hst = c6xxvf_absent_host, trace = [EvReadDir ''/sys/bus/pci/drivers/dh895xccvf'']\<rparr>)
   \<and> ReadDir sim_host (path_Join [pciDriverDir (plugin 1), ''c6xxvf'']) c6xxvf_absent_host
       = (Inl (HostError ''no such file or directory''), c6xxvf_absent_host)
   \<and> scan_inventory sim_host (plugin 1) NewDeviceTree (start c6xxvf_absent_host)
       = scan_drivers sim_host (plugin 1) [''c3xxxvf'', ''d15xxvf'', ''vfio-pci''] 0 [] []
           \<lparr>hst = c6xxvf_absent_host,
            trace = [EvReadDir ''/sys/bus/pci/drivers/dh895xccvf'',
                     EvReadDir ''/sys/bus/pci/drivers/c6xxvf'',
                     EvPrintf ''Can't read sysfs for driver as Driver %s is not available: Skipping\<newline>''
                       [PStr ''c6xxvf'']]\<rparr>
   \<and> Scan_loop sim_host (plugin 1) NewDeviceTree (start c6xxvf_absent_host) = None"
proof -
  let ?w1 = "\<lparr>hst = c6xxvf_absent_host, trace = [EvReadDir ''/sys/bus/pci/drivers/dh895xccvf'']\<rparr>"
  have cfg: "kernelVfDrivers (plugin 1) @ [dpdkDriver (plugin 1)]
      = [''dh895xccvf''] @ ''c6xxvf'' # [''c3xxxvf'', ''d15xxvf'', ''vfio-pci'']"
    by code_simp
  have before: "scan_drivers sim_host (plugin 1) [''dh895xccvf''] 0 [] NewDeviceTree
      (start c6xxvf_absent_host) = ((0, [], []), ?w1)"
    by code_simp
  have absent: "ReadDir sim_host (path_Join [pciDriverDir (plugin 1), ''c6xxvf'']) (hst ?w1)
      = (Inl (HostError ''no such file or directory''), c6xxvf_absent_host)"
    by code_simp
  have p: "path_Join [pciDriverDir (plugin 1), ''c6xxvf''] = ''/sys/bus/pci/drivers/c6xxvf''"
    by code_simp
  note inst = missing_driver_directory_is_skipped [OF cfg before absent, of 0]
  from inst have "scan_inventory sim_host (plugin 1) NewDeviceTree (start c6xxvf_absent_host)
       = scan_drivers sim_host (plugin 1) [''c3xxxvf'', ''d15xxvf'', ''vfio-pci''] 0 [] []
           (?w1\<lparr>hst := c6xxvf_absent_host,
              trace := trace ?w1 @
                [EvReadDir (path_Join [pciDriverDir (plugin 1), ''c6xxvf'']),
                 EvPrintf ''Can't read sysfs for driver as Driver %s is not available: Skipping\<newline>''
                   [PStr ''c6xxvf'']]\<rparr>)"
    by blast
  moreover from inst have "Scan_loop sim_host (plugin 1) NewDeviceTree (start c6xxvf_absent_host) = None"
    by blast
  ultimately show ?thesis
    using cfg before absent by (simp add: p)
qed

section \<open>The device ID\<close>

text \<open>
  C9. When the \<open>device\<close> attribute of an address can be read, on any host, its content
  is a run of white space, a body that neither starts nor ends with white space, and a
  run of white space; \<open>getDeviceID\<close> returns the body without its leading \<open>0x\<close> when it
  has one, and the body itself otherwise. In particular the contents \<open>0x1234\<close> and \<open>1234\<close>
  both give the ID \<open>1234\<close>. The call reads that one attribute and does nothing else.
\<close>

theorem getDeviceID_normalizes:
  assumes "ReadFile h (path_Join [pciDeviceDir dp, pciAddr, ''device'']) (hst w) = (Inr devID, s)"
  shows "(\<exists>ls body rs. devID = concat ls @ body @ concat rs
            \<and> set ls \<subseteq> set spaceRunes \<and> set rs \<subseteq> set spaceRunes
            \<and> (\<forall>e \<in> set spaceRunes. \<not> prefix e body \<and> \<not> suffix e body)
            \<and> fst (getDeviceID h dp pciAddr w)
                = Inr (if prefix ''0x'' body then drop 2 body else body))
         \<and> (devID = ''0x1234'' \<or> devID = ''1234'' \<longrightarrow>
              fst (getDeviceID h dp pciAddr w) = Inr ''1234'')
         \<and> snd (getDeviceID h dp pciAddr w)
              = w\<lparr>hst := s,
                  trace := trace w @ [EvReadFile (path_Join [pciDeviceDir dp, pciAddr, ''device''])]\<rparr>"
proof (intro conjI impI)
  from assms have t: "fst (getDeviceID h dp pciAddr w) = Inr (TrimPrefix (TrimSpace devID) ''0x'')"
    by (simp add: getDeviceID_def ioutil_ReadFile_def)
  then have r: "fst (getDeviceID h dp pciAddr w)
      = Inr (if prefix ''0x'' (TrimSpace devID) then drop 2 (TrimSpace devID) else TrimSpace devID)"
    by (simp add: TrimPrefix_prefix numeral_2_eq_2)
  from TrimSpace_spec [of devID] obtain ls rs where
    "devID = concat ls @ TrimSpace devID @ concat rs"
    "set ls \<subseteq> set spaceRunes" "set rs \<subseteq> set spaceRunes"
    "\<forall>e \<in> set spaceRunes. \<not> prefix e (TrimSpace devID) \<and> \<not> suffix e (TrimSpace devID)"
    by blast
  with r show "\<exists>ls body rs. devID = concat ls @ body @ concat rs
            \<and> set ls \<subseteq> set spaceRunes \<and> set rs \<subseteq> set spaceRunes
            \<and> (\<forall>e \<in> set spaceRunes. \<not> prefix e body \<and> \<not> suffix e body)
            \<and> fst (getDeviceID h dp pciAddr w)
                = Inr (if prefix ''0x'' body then drop 2 body else body)"
    by blast
  have with_prefix: "TrimPrefix (TrimSpace ''0x1234'') ''0x'' = ''1234''"
    by code_simp
  have without: "TrimPrefix (TrimSpace ''1234'') ''0x'' = ''1234''"
    by code_simp
  show "fst (getDeviceID h dp pciAddr w) = Inr ''1234''"
    if "devID = ''0x1234'' \<or> devID = ''1234''"
    using that t with_prefix without by auto
  from assms show "snd (getDeviceID h dp pciAddr w)
      = w\<lparr>hst := s,
          trace := trace w @ [EvReadFile (path_Join [pciDeviceDir dp, pciAddr, ''device''])]\<rparr>"
    by (simp add: getDeviceID_def ioutil_ReadFile_def emit_def)
qed

theorem getDeviceID_normalizes_witness:
  "ReadFile sim_host (path_Join [pciDeviceDir (plugin 1), ''0000:01:00.0'', ''device''])
       (hst (start unknown_host)) = (Inr ''0x1234\<newline>'', unknown_host)
   \<and> (\<exists>ls body rs. ''0x1234\<newline>'' = concat ls @ body @ concat rs
          \<and> set ls \<subseteq> set spaceRunes \<and> set rs \<subseteq> set spaceRunes
          \<and> fst (getDeviceID sim_host (plugin 1) ''0000:01:00.0'' (start unknown_host))
              = Inr (if prefix ''0x'' body then drop 2 body else body))
   \<and> fst (getDeviceID sim_host (plugin 1) ''0000:01:00.0'' (start unknown_host)) = Inr ''1234''"
proof -
  have readable: "ReadFile sim_host (path_Join [pciDeviceDir (plugin 1), ''0000:01:00.0'', ''device''])
      (hst (start unknown_host)) = (Inr ''0x1234\<newline>'', unknown_host)"
    by code_simp
  have ident: "fst (getDeviceID sim_host (plugin 1) ''0000:01:00.0'' (start unknown_host))
      = Inr ''1234''"
    by code_simp
  from getDeviceID_normalizes [OF readable]
  have "\<exists>ls body rs. ''0x1234\<newline>'' = concat ls @ body @ concat rs
          \<and> set ls \<subseteq> set spaceRunes \<and> set rs \<subseteq> set spaceRunes
          \<and> fst (getDeviceID sim_host (plugin 1) ''0000:01:00.0'' (start unknown_host))
              = Inr (if prefix ''0x'' body then drop 2 body else body)"
    by blast
  with readable ident show ?thesis by blast
qed

section \<open>The loop of Scan\<close>

text \<open>
  C10. On every host and in every state a scan returns no error. The body of the loop
  of \<open>Scan\<close> therefore never returns: it hands the tree of the scan to the notifier,
  sleeps 5000000000 nanoseconds and ends with that tree and the host as the sleep left
  it. So the loop never returns, started on any tree and started by \<open>Scan\<close> on the new
  tree; it goes on from the state its first \<open>k\<close> iterations reach, for every \<open>k\<close>; and
  after \<open>k\<close> iterations it is still running and has notified \<open>k\<close> times and slept \<open>k\<close>
  times five seconds. \<open>main\<close> exits, with status 1, exactly when the DPDK driver or one
  of the kernel VF drivers of the flags is not an accepted name, which is before the
  plugin is built and handed to the manager.
\<close>

theorem Scan_never_returns:
  "snd (fst (scan h dp devTree w)) = None
   \<and> Scan_step h dp devTree w =
       Inr (fst (fst (scan h dp devTree w)),
            (snd (scan h dp devTree w))
              \<lparr>hst := Sleep h 5000000000 (hst (snd (scan h dp devTree w))),
               trace := trace (snd (scan h dp devTree w))
                  @ [EvNotify (fst (fst (scan h dp devTree w))), EvSleep 5000000000]\<rparr>)
   \<and> Scan_loop h dp devTree w = None
   \<and> Scan h dp w = None
   \<and> (\<forall>k. Scan_loop h dp devTree w =
          (case Scan_iterations k h dp devTree w of
             (Inl err, w') \<Rightarrow> Some (err, w')
           | (Inr devTree', w') \<Rightarrow> Scan_loop h dp devTree' w'))
   \<and> (\<forall>k. \<exists>devTree' w'. Scan_iterations k h dp devTree w = (Inr devTree', w')
          \<and> length (notified (trace w')) = length (notified (trace w)) + k
          \<and> slept (trace w') = slept (trace w) @ replicate k 5000000000)
   \<and> fst (main dpdkDriver' kernelVfDrivers' maxNumDevices w0) =
       (if isValidDpdkDeviceDriver dpdkDriver'
           \<and> list_all isValidKerneDriver (splitComma kernelVfDrivers')
        then Inr (newDevicePlugin pciDriverDirectory pciDeviceDirectory maxNumDevices
                    (splitComma kernelVfDrivers') dpdkDriver')
        else Inl 1)"
proof (intro conjI allI)
  show "snd (fst (scan h dp devTree w)) = None"
    by (rule scan_no_error)
  show "Scan_step h dp devTree w =
       Inr (fst (fst (scan h dp devTree w)),
            (snd (scan h dp devTree w))
              \<lparr>hst := Sleep h 5000000000 (hst (snd (scan h dp devTree w))),
               trace := trace (snd (scan h dp devTree w))
                  @ [EvNotify (fst (fst (scan h dp devTree w))), EvSleep 5000000000]\<rparr>)"
    by (simp add: Scan_step_runs time_Sleep_def notifier_Notify_def emit_def time_Second_def)
  show "Scan_loop h dp devTree w = None"
    by (rule Scan_loop_None)
  show "Scan h dp w = None"
    by (simp add: Scan_def Scan_loop_None)
  show "Scan_loop h dp devTree w =
          (case Scan_iterations k h dp devTree w of
             (Inl err, w') \<Rightarrow> Some (err, w')
           | (Inr devTree', w') \<Rightarrow> Scan_loop h dp devTree' w')" for k
  proof (induction k arbitrary: devTree w)
    case 0
    show ?case by simp
  next
    case (Suc k)
    show ?case
      by (subst Scan_loop.simps) (simp add: Suc.IH split: sum.splits prod.splits)
  qed
  show "\<exists>devTree' w'. Scan_iterations k h dp devTree w = (Inr devTree', w')
          \<and> length (notified (trace w')) = length (notified (trace w)) + k
          \<and> slept (trace w') = slept (trace w) @ replicate k 5000000000" for k
    using Scan_iterations_run [of k h dp devTree w] by (simp add: time_Second_def)
  show "fst (main dpdkDriver' kernelVfDrivers' maxNumDevices w0) =
       (if isValidDpdkDeviceDriver dpdkDriver'
           \<and> list_all isValidKerneDriver (splitComma kernelVfDrivers')
        then Inr (newDevicePlugin pciDriverDirectory pciDeviceDirectory maxNumDevices
                    (splitComma kernelVfDrivers') dpdkDriver')
        else Inl 1)"
    by (rule main_exit)
qed

end
